theory Spec2Isabelle
  imports Complex_Main "HOL-Library.Word" "HOL-Library.Sublist"
begin

unbundle bit_operations_syntax

section \<open>Strings of the host language\<close>

text \<open>
  A JavaScript string is a sequence of 16-bit code units; \<open>length\<close>, \<open>substring\<close>,
  \<open>startsWith\<close> and the regular expressions of the plugin all work on code units.
  A string literal of the source is written \<open>js ''...''\<close>.
\<close>

type_synonym jschar = "16 word"
type_synonym jsstring = "jschar list"

definition js :: "string \<Rightarrow> jsstring" where
  "js s = map of_char s"

text \<open>\<open>s.startsWith(p)\<close>, \<open>s.endsWith(p)\<close> and \<open>s.includes(p)\<close>.\<close>

definition startsWith :: "jsstring \<Rightarrow> jsstring \<Rightarrow> bool" where
  "startsWith s p = prefix p s"

definition endsWith :: "jsstring \<Rightarrow> jsstring \<Rightarrow> bool" where
  "endsWith s p = suffix p s"

fun includesStr :: "jsstring \<Rightarrow> jsstring \<Rightarrow> bool" where
  "includesStr [] p = (p = [])"
| "includesStr (c # cs) p = (prefix p (c # cs) \<or> includesStr cs p)"

text \<open>
  The characters matched by \<open>\s\<close> in a regular expression and removed by \<open>trim()\<close>:
  the white space and line terminator code points of the language definition.
\<close>

definition isSpace :: "jschar \<Rightarrow> bool" where
  "isSpace c \<longleftrightarrow>
     c = 0x09 \<or> c = 0x0A \<or> c = 0x0B \<or> c = 0x0C \<or> c = 0x0D \<or> c = 0x20 \<or> c = 0xA0 \<or>
     c = 0x1680 \<or> (0x2000 \<le> c \<and> c \<le> 0x200A) \<or> c = 0x2028 \<or> c = 0x2029 \<or>
     c = 0x202F \<or> c = 0x205F \<or> c = 0x3000 \<or> c = 0xFEFF"

definition trim :: "jsstring \<Rightarrow> jsstring" where
  "trim s = rev (dropWhile isSpace (rev (dropWhile isSpace s)))"

abbreviation nl :: jschar where
  "nl \<equiv> 0x0A"

section \<open>Settings, files and the vault\<close>

text \<open>
  The fields of \<open>VaultLLMAssistantSettings\<close> that the modelled functions read. Numbers are
  carried as rationals; no arithmetic is done on them.
\<close>

record settings =
  modelProvider :: jsstring
  model :: jsstring
  lmStudioApiUrl :: jsstring
  lmStudioModel :: jsstring
  useLocalLLM :: bool
  maxTokens :: rat
  temperature :: rat
  includeCurrentFileOnly :: bool
  includeFolder :: jsstring
  excludeFolder :: "jsstring list"
  newNoteFolder :: jsstring
  generateTitlesWithLLM :: bool
  useVaultContent :: bool
  mode :: jsstring

text \<open>A \<open>TFile\<close> of the host: only its path is read.\<close>

record tfile =
  path :: jsstring

text \<open>
  The vault: \<open>getMarkdownFiles()\<close> yields the catalog in the host's order, and
  \<open>cachedRead(file)\<close> yields the text of a file or throws (\<open>None\<close>).
\<close>

record vault =
  getMarkdownFiles :: "tfile list"
  cachedRead :: "tfile \<Rightarrow> jsstring option"

section \<open>scanVault\<close>

text \<open>
  The first half of \<open>scanVault\<close>: the list \<open>files\<close> whose contents are read.
  \<open>currentFile\<close> is \<open>None\<close> for \<open>null\<close>.
\<close>

definition scanVault_files :: "settings \<Rightarrow> vault \<Rightarrow> tfile option \<Rightarrow> tfile list" where
  "scanVault_files s v currentFile =
     (case (includeCurrentFileOnly s, currentFile) of
        (True, Some cf) \<Rightarrow> [cf]
      | _ \<Rightarrow>
          (let allFiles = getMarkdownFiles v;
               filesToScan =
                 (if includeFolder s \<noteq> []
                  then filter (\<lambda>file. startsWith (path file) (includeFolder s)) allFiles
                  else allFiles);
               filesToScan =
                 (if length (excludeFolder s) > 0
                  then filter (\<lambda>file. \<not> list_ex (\<lambda>folder. startsWith (path file) folder)
                                         (excludeFolder s)) filesToScan
                  else filesToScan)
           in filesToScan))"

text \<open>One block of the context: the path marker line, a blank line, the content, a blank line.\<close>

definition fileBlock :: "jsstring \<Rightarrow> jsstring \<Rightarrow> jsstring" where
  "fileBlock p content = js ''FILE: '' @ p @ js ''\<newline>\<newline>'' @ content @ js ''\<newline>\<newline>''"

text \<open>The loop over \<open>files\<close>: a file whose read throws is logged and skipped.\<close>

fun readFiles :: "vault \<Rightarrow> tfile list \<Rightarrow> jsstring \<Rightarrow> jsstring" where
  "readFiles v [] allContents = allContents"
| "readFiles v (file # files) allContents =
     (case cachedRead v file of
        Some content \<Rightarrow> readFiles v files (allContents @ fileBlock (path file) content)
      | None \<Rightarrow> readFiles v files allContents)"

text \<open>The second half of \<open>scanVault\<close>, from the list of files to the returned string.\<close>

definition buildContext :: "vault \<Rightarrow> jsstring \<Rightarrow> tfile list \<Rightarrow> jsstring" where
  "buildContext v additionalContext files =
     (let allContents = readFiles v files []
      in if additionalContext \<noteq> []
         then additionalContext @ js ''\<newline>\<newline>'' @ allContents
         else allContents)"

definition scanVault :: "settings \<Rightarrow> vault \<Rightarrow> jsstring \<Rightarrow> tfile option \<Rightarrow> jsstring" where
  "scanVault s v additionalContext currentFile =
     (if \<not> useVaultContent s
      then (if additionalContext \<noteq> [] then additionalContext else [])
      else buildContext v additionalContext (scanVault_files s v currentFile))"

section \<open>extractSourceFiles\<close>





section \<open>cleanMarkdownResponse\<close>

text \<open>
  Matching with the flag \<open>i\<close>: a lower-case ASCII letter of the pattern matches itself and
  its upper-case form; any other pattern character matches only itself. (No character beyond
  ASCII is canonicalised to an ASCII letter.)
\<close>

definition ciEq :: "jschar \<Rightarrow> jschar \<Rightarrow> bool" where
  "ciEq p c \<longleftrightarrow> c = p \<or> (0x61 \<le> p \<and> p \<le> 0x7A \<and> c = p - 0x20)"

text \<open>The literal \<open>pat\<close>, matched case-insensitively at the head of \<open>text\<close>.\<close>

definition ciPrefix :: "jsstring \<Rightarrow> jsstring \<Rightarrow> bool" where
  "ciPrefix pat text \<longleftrightarrow>
     length pat \<le> length text \<and> list_all2 ciEq pat (take (length pat) text)"

text \<open>
  \<open>```m(?:d|arkdown)\<close> with the flag \<open>i\<close> at the head of \<open>text\<close>: the length of the match.
  The two alternatives exclude each other.
\<close>

definition mdFence :: "jsstring \<Rightarrow> nat option" where
  "mdFence text =
     (if ciPrefix (js ''```md'') text then Some (length (js ''```md''))
      else if ciPrefix (js ''```markdown'') text then Some (length (js ''```markdown''))
      else None)"

text \<open>
  \<open>\s*\n\<close> at the head of \<open>text\<close>: \<open>\s*\<close> takes the whole run of white space and gives
  characters back until a line feed follows, so the match ends with the last line feed of
  that run; there is no match when the run has no line feed.
\<close>

definition spacesNl :: "jsstring \<Rightarrow> nat option" where
  "spacesNl text =
     (let ws = takeWhile isSpace text
      in if nl \<in> set ws
         then Some (length ws - length (takeWhile (\<lambda>c. c \<noteq> nl) (rev ws)))
         else None)"

text \<open>\<open>```m(?:d|arkdown)\s*\n\<close> at the head of \<open>text\<close>: the length of the match.\<close>

definition openerLen :: "jsstring \<Rightarrow> nat option" where
  "openerLen text =
     (case mdFence text of
        Some n \<Rightarrow> (case spacesNl (drop n text) of Some k \<Rightarrow> Some (n + k) | None \<Rightarrow> None)
      | None \<Rightarrow> None)"

text \<open>\<open>text.replace(/^```m(?:d|arkdown)\s*\n/i, "")\<close>\<close>

definition stripOpener :: "jsstring \<Rightarrow> jsstring" where
  "stripOpener text = (case openerLen text of Some n \<Rightarrow> drop n text | None \<Rightarrow> text)"

text \<open>
  \<open>\n```\s*$\<close> at the head of \<open>text\<close>: without the flag \<open>m\<close>, \<open>$\<close> is the end of the input,
  so all that follows the three backticks is white space.
\<close>

definition closerAt :: "jsstring \<Rightarrow> bool" where
  "closerAt text \<longleftrightarrow>
     prefix (js ''\<newline>```'') text \<and> list_all isSpace (drop (length (js ''\<newline>```'')) text)"

text \<open>\<open>text.replace(/\n```\s*$/i, "")\<close>: the leftmost match runs to the end and is removed.\<close>

fun stripCloser :: "jsstring \<Rightarrow> jsstring" where
  "stripCloser [] = []"
| "stripCloser (c # cs) = (if closerAt (c # cs) then [] else c # stripCloser cs)"

text \<open>\<open>text.match(/```m(?:d|arkdown)/i)\<close>: the index of the leftmost match, \<open>None\<close> for \<open>null\<close>.\<close>

fun fenceIndex :: "jsstring \<Rightarrow> nat option" where
  "fenceIndex [] = None"
| "fenceIndex (c # cs) =
     (if mdFence (c # cs) \<noteq> None then Some 0 else map_option Suc (fenceIndex cs))"

text \<open>
  \<open>text.replace(/```m(?:d|arkdown)\s*\n/i, "")\<close>, not anchored: the leftmost match is
  removed, wherever it is.
\<close>

fun removeFirstOpener :: "jsstring \<Rightarrow> jsstring" where
  "removeFirstOpener [] = []"
| "removeFirstOpener (c # cs) =
     (case openerLen (c # cs) of
        Some n \<Rightarrow> drop n (c # cs)
      | None \<Rightarrow> c # removeFirstOpener cs)"

text \<open>
  The function itself. \<open>mdFenceMatch && mdFenceMatch.index\<close> is false for no match and
  for a match at index 0.
\<close>

definition cleanMarkdownResponse :: "jsstring \<Rightarrow> jsstring" where
  "cleanMarkdownResponse text0 =
     (let text = stripOpener text0;
          text = stripCloser text
      in case fenceIndex text of
           Some index \<Rightarrow>
             if index \<noteq> 0 then removeFirstOpener (drop index text) else text
         | None \<Rightarrow> text)"


text \<open>
  A markdown fence opener as the specification names it: \<open>```md\<close> or \<open>```markdown\<close>, in any mix
  of upper and lower case (used to state C5).
\<close>

definition isFenceTag :: "jsstring \<Rightarrow> bool" where
  "isFenceTag opener \<longleftrightarrow>
     list_all2 ciEq (js ''```md'') opener \<or> list_all2 ciEq (js ''```markdown'') opener"

section \<open>Values, errors and the platform\<close>

text \<open>
  The values of the host language that the adapters handle: the JSON values of a response
  body, and \<open>undefined\<close>. An object is the list of its own properties.
\<close>

datatype jsval =
    JUndefined
  | JNull
  | JBool bool
  | JNum rat
  | JStr jsstring
  | JArr "jsval list"
  | JObj "(jsstring \<times> jsval) list"

text \<open>Conversion to a boolean, as in \<open>if (x)\<close>, \<open>x && y\<close> and \<open>x || y\<close>.\<close>

fun truthy :: "jsval \<Rightarrow> bool" where
  "truthy JUndefined = False"
| "truthy JNull = False"
| "truthy (JBool b) = b"
| "truthy (JNum n) = (n \<noteq> 0)"
| "truthy (JStr s) = (s \<noteq> [])"
| "truthy (JArr xs) = True"
| "truthy (JObj kvs) = True"

text \<open>
  A thrown error object, with the three properties the \<open>catch\<close> blocks read:
  \<open>error.text\<close> (absent, or a method whose call throws, \<open>Some None\<close>, or yields the body
  text), \<open>error.status\<close> and \<open>error.message\<close>.
\<close>

record js_error =
  err_text :: "jsstring option option"
  err_status :: "rat option"
  err_message :: "jsstring option"

text \<open>\<open>new Error(msg)\<close>\<close>

definition newError :: "jsstring \<Rightarrow> js_error" where
  "newError msg = \<lparr> err_text = None, err_status = None, err_message = Some msg \<rparr>"

text \<open>The request passed to \<open>requestUrl\<close>; \<open>body\<close> is the object given to \<open>JSON.stringify\<close>.\<close>

record request =
  url :: jsstring
  httpMethod :: jsstring
  headers :: "(jsstring \<times> jsstring) list"
  body :: jsval

text \<open>A response: reading \<open>response.json\<close> yields the parsed body or throws.\<close>

record response =
  json :: "js_error + jsval"

text \<open>
  What the host platform provides and the plugin does not define: the network
  (\<open>requestUrl\<close> resolves to a response or throws; it throws for a status of 400 and
  above), \<open>JSON.parse\<close> (\<open>None\<close> when it throws), the conversion of a value to a string in
  a template literal, the message of the \<open>TypeError\<close> thrown by a property read on
  \<open>null\<close> or \<open>undefined\<close>, the comparison \<open>v > 0\<close> for a \<open>v\<close> that is not a number, lower-casing
  of text beyond ASCII, and the date \<open>new Date().toISOString().slice(0, 10)\<close>.
\<close>

record platform =
  requestUrl :: "request \<Rightarrow> js_error + response"
  JSON_parse :: "jsstring \<Rightarrow> jsval option"
  toStr :: "jsval \<Rightarrow> jsstring"
  typeErrorMessage :: "jsval \<Rightarrow> jsstring \<Rightarrow> jsstring"
  coercedGtZero :: "jsval \<Rightarrow> bool"
  unicodeLower :: "jsstring \<Rightarrow> jsstring"
  today :: jsstring

text \<open>Sequencing of steps that may throw: the first thrown error ends the block.\<close>

definition bindE :: "'e + 'a \<Rightarrow> ('a \<Rightarrow> 'e + 'b) \<Rightarrow> 'e + 'b" where
  "bindE m f = (case m of Inl e \<Rightarrow> Inl e | Inr x \<Rightarrow> f x)"

definition typeError :: "platform \<Rightarrow> jsval \<Rightarrow> jsstring \<Rightarrow> js_error" where
  "typeError P v k = newError (typeErrorMessage P v k)"

text \<open>
  The property read \<open>v.k\<close>: a \<open>TypeError\<close> on \<open>null\<close> and \<open>undefined\<close>, the own property of
  an object, the \<open>length\<close> of an array or a string, \<open>undefined\<close> otherwise. (None of the
  property names read by the plugin is inherited from a prototype.)
\<close>

fun getProp :: "platform \<Rightarrow> jsval \<Rightarrow> jsstring \<Rightarrow> js_error + jsval" where
  "getProp P JUndefined k = Inl (typeError P JUndefined k)"
| "getProp P JNull k = Inl (typeError P JNull k)"
| "getProp P (JObj kvs) k = Inr (case map_of kvs k of Some v \<Rightarrow> v | None \<Rightarrow> JUndefined)"
| "getProp P (JArr xs) k =
     Inr (if k = js ''length'' then JNum (of_nat (length xs)) else JUndefined)"
| "getProp P (JStr s) k =
     Inr (if k = js ''length'' then JNum (of_nat (length s)) else JUndefined)"
| "getProp P (JBool b) k = Inr JUndefined"
| "getProp P (JNum n) k = Inr JUndefined"

text \<open>The element read \<open>v[0]\<close>.\<close>

fun getIndex0 :: "platform \<Rightarrow> jsval \<Rightarrow> js_error + jsval" where
  "getIndex0 P JUndefined = Inl (typeError P JUndefined (js ''0''))"
| "getIndex0 P JNull = Inl (typeError P JNull (js ''0''))"
| "getIndex0 P (JArr xs) = Inr (case xs of [] \<Rightarrow> JUndefined | x # _ \<Rightarrow> x)"
| "getIndex0 P (JStr s) = Inr (case s of [] \<Rightarrow> JUndefined | c # _ \<Rightarrow> JStr [c])"
| "getIndex0 P (JObj kvs) = Inr (case map_of kvs (js ''0'') of Some v \<Rightarrow> v | None \<Rightarrow> JUndefined)"
| "getIndex0 P (JBool b) = Inr JUndefined"
| "getIndex0 P (JNum n) = Inr JUndefined"

text \<open>The comparison \<open>v > 0\<close>.\<close>

fun gtZero :: "platform \<Rightarrow> jsval \<Rightarrow> bool" where
  "gtZero P (JNum n) = (n > 0)"
| "gtZero P JUndefined = False"
| "gtZero P JNull = False"
| "gtZero P (JBool b) = b"
| "gtZero P v = coercedGtZero P v"

text \<open>The condition \<open>obj.k && obj.k.length > 0\<close>.\<close>

definition hasItems :: "platform \<Rightarrow> jsval \<Rightarrow> jsstring \<Rightarrow> js_error + bool" where
  "hasItems P obj k =
     bindE (getProp P obj k) (\<lambda>a.
       if truthy a
       then bindE (getProp P a (js ''length'')) (\<lambda>l. Inr (gtZero P l))
       else Inr False)"

text \<open>The assignment \<open>obj.k = v\<close> on the list of properties.\<close>

fun setProp :: "(jsstring \<times> jsval) list \<Rightarrow> jsstring \<Rightarrow> jsval \<Rightarrow> (jsstring \<times> jsval) list" where
  "setProp [] k v = [(k, v)]"
| "setProp ((k', v') # kvs) k v =
     (if k' = k then (k, v) # kvs else (k', v') # setProp kvs k v)"

section \<open>The plugin and the model catalog\<close>

text \<open>The plugin object: its settings and the two decrypted keys.\<close>

record plugin =
  settings :: settings
  openAIApiKey :: jsstring
  geminiApiKey :: jsstring

definition getApiKey :: "plugin \<Rightarrow> jsstring" where
  "getApiKey pl =
     (if useLocalLLM (settings pl) then []
      else if modelProvider (settings pl) = js ''gpt'' then openAIApiKey pl
      else if modelProvider (settings pl) = js ''gemini'' then geminiApiKey pl
      else [])"

text \<open>
  An entry of the catalog \<open>OPENAI_MODELS\<close>; \<open>endpoint\<close> is \<open>None\<close> and
  \<open>useMaxCompletionTokens\<close> is \<open>False\<close> where the entry does not set them.
\<close>

record model_config =
  model_id :: jsstring
  model_name :: jsstring
  endpoint :: "jsstring option"
  useMaxCompletionTokens :: bool

definition OPENAI_MODELS :: "model_config list" where
  "OPENAI_MODELS =
     [ \<lparr> model_id = js ''gpt-5.2-pro'', model_name = js ''GPT-5.2 Pro'',
         endpoint = Some (js ''/v1/responses''), useMaxCompletionTokens = False \<rparr>,
       \<lparr> model_id = js ''gpt-5.2'', model_name = js ''GPT-5.2'',
         endpoint = None, useMaxCompletionTokens = True \<rparr>,
       \<lparr> model_id = js ''gpt-5.1'', model_name = js ''GPT-5.1'',
         endpoint = None, useMaxCompletionTokens = True \<rparr>,
       \<lparr> model_id = js ''gpt-5-pro'', model_name = js ''GPT-5 Pro'',
         endpoint = Some (js ''/v1/responses''), useMaxCompletionTokens = False \<rparr>,
       \<lparr> model_id = js ''gpt-5'', model_name = js ''GPT-5'',
         endpoint = None, useMaxCompletionTokens = True \<rparr>,
       \<lparr> model_id = js ''gpt-5-mini'', model_name = js ''GPT-5 Mini'',
         endpoint = None, useMaxCompletionTokens = True \<rparr>,
       \<lparr> model_id = js ''gpt-5-nano'', model_name = js ''GPT-5 Nano'',
         endpoint = None, useMaxCompletionTokens = True \<rparr>,
       \<lparr> model_id = js ''o1-pro'', model_name = js ''o1 Pro'',
         endpoint = Some (js ''/v1/responses''), useMaxCompletionTokens = False \<rparr>,
       \<lparr> model_id = js ''o1'', model_name = js ''o1'',
         endpoint = None, useMaxCompletionTokens = True \<rparr>,
       \<lparr> model_id = js ''o3'', model_name = js ''o3'',
         endpoint = None, useMaxCompletionTokens = True \<rparr>,
       \<lparr> model_id = js ''o3-mini'', model_name = js ''o3 Mini'',
         endpoint = None, useMaxCompletionTokens = True \<rparr>,
       \<lparr> model_id = js ''o4-mini'', model_name = js ''o4 Mini'',
         endpoint = None, useMaxCompletionTokens = True \<rparr>,
       \<lparr> model_id = js ''gpt-4.1'', model_name = js ''GPT-4.1'',
         endpoint = None, useMaxCompletionTokens = False \<rparr>,
       \<lparr> model_id = js ''gpt-4.1-mini'', model_name = js ''GPT-4.1 Mini'',
         endpoint = None, useMaxCompletionTokens = False \<rparr>,
       \<lparr> model_id = js ''gpt-4.1-nano'', model_name = js ''GPT-4.1 Nano'',
         endpoint = None, useMaxCompletionTokens = False \<rparr>,
       \<lparr> model_id = js ''gpt-4o'', model_name = js ''GPT-4o'',
         endpoint = None, useMaxCompletionTokens = False \<rparr>,
       \<lparr> model_id = js ''gpt-4o-mini'', model_name = js ''GPT-4o Mini'',
         endpoint = None, useMaxCompletionTokens = False \<rparr>,
       \<lparr> model_id = js ''gpt-4-turbo'', model_name = js ''GPT-4 Turbo'',
         endpoint = None, useMaxCompletionTokens = False \<rparr>,
       \<lparr> model_id = js ''gpt-4'', model_name = js ''GPT-4'',
         endpoint = None, useMaxCompletionTokens = False \<rparr>,
       \<lparr> model_id = js ''gpt-3.5-turbo'', model_name = js ''GPT-3.5 Turbo'',
         endpoint = None, useMaxCompletionTokens = False \<rparr>,
       \<lparr> model_id = js ''gpt-3.5-turbo-16k'', model_name = js ''GPT-3.5 Turbo 16k'',
         endpoint = None, useMaxCompletionTokens = False \<rparr> ]"
section \<open>queryGPT\<close>

text \<open>The system and user messages of a chat request.\<close>

definition chatMessages :: "jsstring \<Rightarrow> jsstring \<Rightarrow> jsval" where
  "chatMessages systemContent prompt =
     JArr [JObj [(js ''role'', JStr (js ''system'')), (js ''content'', JStr systemContent)],
           JObj [(js ''role'', JStr (js ''user'')), (js ''content'', JStr prompt)]]"

definition gptSystemContent :: jsstring where
  "gptSystemContent =
     js ''You are an expert assistant. Answer responsibly, concisely, and precisely. Always cite sources using [[Filename]].''"

text \<open>\<open>OPENAI_MODELS.find((m) => m.id === this.settings.model)\<close>\<close>

definition findModelConfig :: "settings \<Rightarrow> model_config option" where
  "findModelConfig s = find (\<lambda>m. model_id m = model s) OPENAI_MODELS"

text \<open>
  \<open>(modelConfig && modelConfig.endpoint) ? modelConfig.endpoint : "/v1/chat/completions"\<close>
\<close>

definition gptEndpoint :: "model_config option \<Rightarrow> jsstring" where
  "gptEndpoint modelConfig =
     (case modelConfig of
        Some m \<Rightarrow>
          (case endpoint m of
             Some e \<Rightarrow> if e \<noteq> [] then e else js ''/v1/chat/completions''
           | None \<Rightarrow> js ''/v1/chat/completions'')
      | None \<Rightarrow> js ''/v1/chat/completions'')"

text \<open>The object \<open>body\<close> of \<open>queryGPT\<close>, property by property as the function assigns them.\<close>

definition queryGPT_body :: "settings \<Rightarrow> jsstring \<Rightarrow> (jsstring \<times> jsval) list" where
  "queryGPT_body s prompt =
     (let modelConfig = findModelConfig s;
          body = [(js ''model'', JStr (model s)), (js ''temperature'', JNum (temperature s))];
          endpoint = gptEndpoint modelConfig;
          body =
            (if endpoint = js ''/v1/responses''
             then setProp body (js ''input'') (chatMessages gptSystemContent prompt)
             else if endpoint = js ''/v1/completions''
             then setProp (setProp body (js ''prompt'') (JStr prompt)) (js ''prompt'')
                    (JStr (js ''System: You are an expert assistant. Answer concisely.\<newline>User: ''
                           @ prompt @ js ''\<newline>Assistant:''))
             else setProp body (js ''messages'') (chatMessages gptSystemContent prompt));
          body =
            (if (case modelConfig of Some m \<Rightarrow> useMaxCompletionTokens m | None \<Rightarrow> False)
             then setProp body (js ''max_completion_tokens'') (JNum (maxTokens s))
             else if endpoint \<noteq> js ''/v1/responses''
             then setProp body (js ''max_tokens'') (JNum (maxTokens s))
             else body)
      in body)"

definition queryGPT_request :: "plugin \<Rightarrow> jsstring \<Rightarrow> request" where
  "queryGPT_request pl prompt =
     \<lparr> url = js ''https://api.openai.com'' @ gptEndpoint (findModelConfig (settings pl)),
       httpMethod = js ''POST'',
       headers = [(js ''Content-Type'', js ''application/json''),
                  (js ''Authorization'', js ''Bearer '' @ getApiKey pl)],
       body = JObj (queryGPT_body (settings pl) prompt) \<rparr>"

text \<open>
  The end of the \<open>try\<close> block of \<open>queryGPT\<close> and of \<open>queryLMStudio\<close>: the content of the
  first choice, or the fixed text when there is none.
\<close>

definition firstChoiceContent :: "platform \<Rightarrow> jsval \<Rightarrow> js_error + jsval" where
  "firstChoiceContent P jsonResponse =
     bindE (hasItems P jsonResponse (js ''choices'')) (\<lambda>some.
       if some
       then bindE (getProp P jsonResponse (js ''choices'')) (\<lambda>choices.
            bindE (getIndex0 P choices) (\<lambda>choice.
            bindE (getProp P choice (js ''message'')) (\<lambda>message.
            getProp P message (js ''content''))))
       else Inr (JStr (js ''No response generated.'')))"

text \<open>
  The inner \<open>try\<close> of the \<open>catch\<close> blocks of \<open>queryGPT\<close> and \<open>queryGemini\<close>: the text appended
  to the error prefix when the error body holds \<open>error.message\<close>; \<open>None\<close> when the block
  falls through (no \<open>text\<close>, a throw inside, or no message).
\<close>

definition serverMessage :: "platform \<Rightarrow> js_error \<Rightarrow> jsstring option" where
  "serverMessage P error =
     (case err_text error of
        None \<Rightarrow> None
      | Some None \<Rightarrow> None
      | Some (Some errorBody) \<Rightarrow>
          (case JSON_parse P errorBody of
             None \<Rightarrow> None
           | Some parsedBody \<Rightarrow>
               (case getProp P parsedBody (js ''error'') of
                  Inl e \<Rightarrow> None
                | Inr err \<Rightarrow>
                    if truthy err
                    then (case getProp P err (js ''message'') of
                            Inl e \<Rightarrow> None
                          | Inr msg \<Rightarrow>
                              if truthy msg
                              then Some (js ''Server message: '' @ toStr P msg)
                              else None)
                    else None)))"

text \<open>
  \<open>error.status\<close> and \<open>error.message\<close> where the code tests them as conditions: the value
  when it is truthy (a number other than 0, a non-empty string).
\<close>

definition truthyStatus :: "js_error \<Rightarrow> rat option" where
  "truthyStatus error =
     (case err_status error of Some status \<Rightarrow> if status \<noteq> 0 then Some status else None
      | None \<Rightarrow> None)"

definition truthyMessage :: "js_error \<Rightarrow> jsstring option" where
  "truthyMessage error =
     (case err_message error of Some m \<Rightarrow> if m \<noteq> [] then Some m else None
      | None \<Rightarrow> None)"

text \<open>\<open>error.message || "Unknown error"\<close>\<close>

definition messageOrUnknown :: "js_error \<Rightarrow> jsstring" where
  "messageOrUnknown error =
     (case truthyMessage error of Some m \<Rightarrow> m | None \<Rightarrow> js ''Unknown error'')"

text \<open>The \<open>catch\<close> block of \<open>queryGPT\<close>: the returned string.\<close>

definition queryGPT_catch :: "platform \<Rightarrow> js_error \<Rightarrow> jsstring" where
  "queryGPT_catch P error =
     (let errorMessage = js ''Error querying OpenAI: ''
      in case serverMessage P error of
           Some m \<Rightarrow> errorMessage @ m
         | None \<Rightarrow>
             (case truthyStatus error of
                Some status \<Rightarrow>
                    (if status = 401
                     then errorMessage @ js ''Authentication error. Please check your API key.''
                     else if status = 403
                     then errorMessage
                          @ js ''Permission denied. Your API key may not have access to this model.''
                     else if status = 404
                     then errorMessage
                          @ js ''The specified model was not found. It might be deprecated or unavailable.''
                     else if status = 429
                     then errorMessage
                          @ js ''Rate limit exceeded or quota exceeded. Please check your OpenAI plan and limits.''
                     else if status = 500 \<or> status = 502 \<or> status = 503 \<or> status = 504
                     then errorMessage @ js ''OpenAI server error. Please try again later.''
                     else errorMessage @ js ''Status '' @ toStr P (JNum status) @ js '': ''
                          @ messageOrUnknown error)
              | None \<Rightarrow>
                  (case truthyMessage error of
                     Some m \<Rightarrow> errorMessage @ m
                   | None \<Rightarrow> errorMessage @ js ''Unknown error occurred'')))"

text \<open>
  \<open>queryGPT\<close>: \<open>Inr\<close> is the returned value, \<open>Inl\<close> would be an error thrown to the caller.
\<close>

definition queryGPT :: "platform \<Rightarrow> plugin \<Rightarrow> jsstring \<Rightarrow> js_error + jsval" where
  "queryGPT P pl prompt =
     (case bindE (requestUrl P (queryGPT_request pl prompt)) (\<lambda>response.
           bindE (json response) (\<lambda>jsonResponse.
           firstChoiceContent P jsonResponse)) of
        Inr result \<Rightarrow> Inr result
      | Inl error \<Rightarrow> Inr (JStr (queryGPT_catch P error)))"

section \<open>queryGemini\<close>

definition queryGemini_request :: "plugin \<Rightarrow> jsstring \<Rightarrow> request" where
  "queryGemini_request pl prompt =
     \<lparr> url = js ''https://generativelanguage.googleapis.com/v1beta/models/''
             @ model (settings pl) @ js '':generateContent?key='' @ getApiKey pl,
       httpMethod = js ''POST'',
       headers = [(js ''Content-Type'', js ''application/json'')],
       body = JObj [(js ''contents'',
                      JArr [JObj [(js ''parts'', JArr [JObj [(js ''text'', JStr prompt)]])]]),
                    (js ''generationConfig'',
                      JObj [(js ''maxOutputTokens'', JNum (maxTokens (settings pl))),
                            (js ''temperature'', JNum (temperature (settings pl)))])] \<rparr>"

text \<open>The end of the \<open>try\<close> block of \<open>queryGemini\<close>.\<close>

definition geminiResult :: "platform \<Rightarrow> jsval \<Rightarrow> js_error + jsval" where
  "geminiResult P jsonResponse =
     bindE (hasItems P jsonResponse (js ''candidates'')) (\<lambda>some.
       if some
       then bindE (getProp P jsonResponse (js ''candidates'')) (\<lambda>candidates.
            bindE (getIndex0 P candidates) (\<lambda>candidate.
            bindE (getProp P candidate (js ''content'')) (\<lambda>content.
            bindE (getProp P content (js ''parts'')) (\<lambda>parts.
            bindE (getIndex0 P parts) (\<lambda>part.
            getProp P part (js ''text''))))))
       else bindE (getProp P jsonResponse (js ''error'')) (\<lambda>err.
            if truthy err
            then bindE (getProp P err (js ''message'')) (\<lambda>msg.
                 Inr (JStr (js ''Gemini API Error: ''
                            @ (if truthy msg then toStr P msg else js ''Unknown error''))))
            else Inr (JStr (js ''No response generated.''))))"

definition queryGemini_catch :: "platform \<Rightarrow> js_error \<Rightarrow> jsstring" where
  "queryGemini_catch P error =
     (let errorMessage = js ''Error querying Gemini: ''
      in case serverMessage P error of
           Some m \<Rightarrow> errorMessage @ m
         | None \<Rightarrow>
             (case truthyStatus error of
                Some status \<Rightarrow>
                    (if status = 400
                     then errorMessage
                          @ js ''Bad request. Check your model name and request format.''
                     else if status = 401
                     then errorMessage @ js ''Authentication error. Please check your API key.''
                     else if status = 403
                     then errorMessage
                          @ js ''Permission denied. Your API key may not have access to this model.''
                     else if status = 404
                     then errorMessage
                          @ js ''The specified model was not found. It might be deprecated or unavailable.''
                     else if status = 429
                     then errorMessage
                          @ js ''Rate limit exceeded or quota exceeded. Please check your Google AI Studio quota.''
                     else if status = 500 \<or> status = 502 \<or> status = 503 \<or> status = 504
                     then errorMessage @ js ''Gemini server error. Please try again later.''
                     else errorMessage @ js ''Status '' @ toStr P (JNum status) @ js '': ''
                          @ messageOrUnknown error)
              | None \<Rightarrow>
                  (case truthyMessage error of
                     Some m \<Rightarrow> errorMessage @ m
                   | None \<Rightarrow> errorMessage @ js ''Unknown error occurred'')))"

definition queryGemini :: "platform \<Rightarrow> plugin \<Rightarrow> jsstring \<Rightarrow> js_error + jsval" where
  "queryGemini P pl prompt =
     (case bindE (requestUrl P (queryGemini_request pl prompt)) (\<lambda>response.
           bindE (json response) (\<lambda>jsonResponse.
           geminiResult P jsonResponse)) of
        Inr result \<Rightarrow> Inr result
      | Inl error \<Rightarrow> Inr (JStr (queryGemini_catch P error)))"

section \<open>queryLMStudio\<close>

text \<open>The URL: the configured one, with \<open>/chat/completions\<close> appended when it does not end so.\<close>

definition lmStudioUrl :: "settings \<Rightarrow> jsstring" where
  "lmStudioUrl s =
     (let url = lmStudioApiUrl s
      in if \<not> endsWith url (js ''/chat/completions'')
         then (if endsWith url (js ''/'')
               then url @ js ''chat/completions''
               else url @ js ''/chat/completions'')
         else url)"

definition queryLMStudio_request :: "plugin \<Rightarrow> jsstring \<Rightarrow> request" where
  "queryLMStudio_request pl prompt =
     \<lparr> url = lmStudioUrl (settings pl),
       httpMethod = js ''POST'',
       headers = [(js ''Content-Type'', js ''application/json'')],
       body = JObj [(js ''model'', JStr (lmStudioModel (settings pl))),
                    (js ''messages'',
                      chatMessages
                        (js ''You are a helpful assistant that answers questions about the user's Obsidian vault content.'')
                        prompt),
                    (js ''max_tokens'', JNum (maxTokens (settings pl))),
                    (js ''temperature'', JNum (temperature (settings pl)))] \<rparr>"

definition connectionFailed :: jsstring where
  "connectionFailed = js ''Connection failed. Is LM Studio running and the server started?''"

text \<open>
  The \<open>catch\<close> block of \<open>queryLMStudio\<close>. The \<open>case 0\<close> of its \<open>switch\<close> is kept where the
  source has it, inside \<open>if (error.status)\<close>.
\<close>

definition queryLMStudio_catch :: "platform \<Rightarrow> js_error \<Rightarrow> jsstring" where
  "queryLMStudio_catch P error =
     (let errorMessage = js ''Error querying LM Studio: ''
      in case truthyStatus error of
           Some status \<Rightarrow>
               (if status = 404
                then errorMessage @ js ''Endpoint not found. Check your LM Studio URL setting.''
                else if status = 500
                then errorMessage @ js ''Server error. Check LM Studio logs.''
                else if status = 0
                then errorMessage @ connectionFailed
                else errorMessage @ js ''Status '' @ toStr P (JNum status) @ js '': ''
                     @ messageOrUnknown error)
         | None \<Rightarrow>
             (case truthyMessage error of
                Some m \<Rightarrow>
                  if includesStr m (js ''Connection refused'')
                     \<or> includesStr m (js ''Failed to fetch'')
                  then errorMessage @ connectionFailed
                  else errorMessage @ m
              | None \<Rightarrow> errorMessage @ js ''Unknown error occurred''))"

definition queryLMStudio :: "platform \<Rightarrow> plugin \<Rightarrow> jsstring \<Rightarrow> js_error + jsval" where
  "queryLMStudio P pl prompt =
     (case bindE (requestUrl P (queryLMStudio_request pl prompt)) (\<lambda>response.
           bindE (json response) (\<lambda>jsonResponse.
           firstChoiceContent P jsonResponse)) of
        Inr result \<Rightarrow> Inr result
      | Inl error \<Rightarrow> Inr (JStr (queryLMStudio_catch P error)))"

section \<open>queryLLM\<close>

text \<open>
  \<open>${currentFilePath ? `Current file: ${currentFilePath}` : ""}\<close>, with \<open>None\<close> for \<open>null\<close>.
\<close>

definition currentFileLine :: "jsstring option \<Rightarrow> jsstring" where
  "currentFileLine currentFilePath =
     (case currentFilePath of
        Some p \<Rightarrow> if p \<noteq> [] then js ''Current file: '' @ p else []
      | None \<Rightarrow> [])"

text \<open>The prompt of \<open>queryLLM\<close>: one of four templates, or the empty string.\<close>

definition buildPrompt :: "settings \<Rightarrow> jsstring \<Rightarrow> jsstring \<Rightarrow> jsstring option \<Rightarrow> jsstring" where
  "buildPrompt s query vaultContent currentFilePath =
     (if mode s = js ''query'' then
        (if useVaultContent s then
           js (''You are an expert assistant for the user's Obsidian vault.\<newline>''
                 @ ''1. Be concise and precise. Minimize filler text and get straight to the answer.\<newline>''
                 @ ''2. Answer STRICTLY based on the provided notes.\<newline>''
                 @ ''3. Cite sources using the format [[file_path]].\<newline>''
                 @ ''4. Use Markdown formatting.\<newline>''
                 @ ''\<newline>''
                 @ ''User's Notes:\<newline>'')
           @ vaultContent
           @ js (''\<newline>''
                 @ ''\<newline>'')
           @ currentFileLine currentFilePath
           @ js (''\<newline>''
                 @ ''\<newline>''
                 @ ''User's Question: '')
           @ query
         else
           js (''You are an expert assistant.\<newline>''
                 @ ''1. Answer clearly and concisely. Minimize filler text.\<newline>''
                 @ ''2. Use Markdown formatting.\<newline>''
                 @ ''\<newline>''
                 @ ''User's Question: '')
           @ query)
      else if mode s = js ''create'' then
        (if useVaultContent s then
           js (''You are a helpful assistant for creating new notes in the user's Obsidian vault.\<newline>''
                 @ ''You have access to the user's existing notes which are provided below.\<newline>''
                 @ ''Please create a comprehensive note about the requested topic, incorporating relevant information from the existing notes when applicable.\<newline>''
                 @ ''When referencing content from existing notes, cite the source file using the format [[file_path]].\<newline>''
                 @ ''\<newline>''
                 @ ''IMPORTANT: Respond ONLY with the note content directly, without any additional text, introductions, or wrapper. DO NOT include ```md at the beginning or ``` at the end.\<newline>''
                 @ ''Use proper Markdown formatting with headings, lists, and code blocks as needed.\<newline>''
                 @ ''If you quote or reference content from the vault, make sure to include proper citations, you may include the specific part of the file that you are referencing using the format [[file_path#title_of_the_section_you_are_referencing]] (Do not change the title of the section you are referencing, use the same title as it is in the file with the same capitalization).\<newline>''
                 @ ''For any code examples, use proper markdown code blocks with language specification.\<newline>''
                 @ ''\<newline>''
                 @ ''User's Notes:\<newline>'')
           @ vaultContent
           @ js (''\<newline>''
                 @ ''\<newline>'')
           @ currentFileLine currentFilePath
           @ js (''\<newline>''
                 @ ''\<newline>''
                 @ ''Topic to create a note about: '')
           @ query
         else
           js (''You are a helpful assistant for creating new notes.\<newline>''
                 @ ''Please create a comprehensive note about the requested topic.\<newline>''
                 @ ''\<newline>''
                 @ ''IMPORTANT: Respond ONLY with the note content directly, without any additional text, introductions, or wrapper. DO NOT include ```md at the beginning or ``` at the end.\<newline>''
                 @ ''Use proper Markdown formatting with headings, lists, and code blocks as needed.\<newline>''
                 @ ''For any code examples, use proper markdown code blocks with language specification.\<newline>''
                 @ ''\<newline>''
                 @ ''Topic to create a note about: '')
           @ query)
      else [])"

text \<open>
  The choice of the adapter, as \<open>queryLLM\<close> and \<open>generateTitleForResponse\<close> both write it;
  an unknown provider throws.
\<close>

definition queryProvider :: "platform \<Rightarrow> plugin \<Rightarrow> jsstring \<Rightarrow> js_error + jsval" where
  "queryProvider P pl prompt =
     (if useLocalLLM (settings pl) then queryLMStudio P pl prompt
      else if modelProvider (settings pl) = js ''gpt'' then queryGPT P pl prompt
      else if modelProvider (settings pl) = js ''gemini'' then queryGemini P pl prompt
      else Inl (newError (js ''Unknown model provider'')))"

text \<open>
  A method call \<open>v.replace(...)\<close> or \<open>v.startsWith(...)\<close> on a value: the string, or the
  \<open>TypeError\<close> thrown when the value is not a string.
\<close>

definition asString :: "platform \<Rightarrow> jsval \<Rightarrow> jsstring \<Rightarrow> js_error + jsstring" where
  "asString P v k = (case v of JStr t \<Rightarrow> Inr t | _ \<Rightarrow> Inl (typeError P v k))"

text \<open>\<open>`Error: ${error.message}`\<close>\<close>

definition queryLLM_catch :: "platform \<Rightarrow> js_error \<Rightarrow> jsstring" where
  "queryLLM_catch P error =
     js ''Error: '' @ (case err_message error of Some m \<Rightarrow> m | None \<Rightarrow> toStr P JUndefined)"

definition queryLLM ::
  "platform \<Rightarrow> plugin \<Rightarrow> jsstring \<Rightarrow> jsstring \<Rightarrow> jsstring option \<Rightarrow> js_error + jsval" where
  "queryLLM P pl query vaultContent currentFilePath =
     (case (let prompt = buildPrompt (settings pl) query vaultContent currentFilePath
            in bindE (queryProvider P pl prompt) (\<lambda>response.
               if mode (settings pl) = js ''create''
               then bindE (asString P response (js ''replace'')) (\<lambda>t.
                      Inr (JStr (cleanMarkdownResponse t)))
               else Inr response)) of
        Inr response \<Rightarrow> Inr response
      | Inl error \<Rightarrow> Inr (JStr (queryLLM_catch P error)))"

text \<open>
  The test of both callers on the result of \<open>queryLLM\<close>:
  \<open>response.startsWith("Error querying ") || response.startsWith("Gemini API Error:")\<close>.
\<close>

definition isErrorResponse :: "jsstring \<Rightarrow> bool" where
  "isErrorResponse response \<longleftrightarrow>
     startsWith response (js ''Error querying '') \<or> startsWith response (js ''Gemini API Error:'')"

section \<open>Titles of new notes\<close>

text \<open>\<open>`LLM response ${new Date().toISOString().slice(0, 10)}`\<close>\<close>

definition defaultTitle :: "platform \<Rightarrow> jsstring" where
  "defaultTitle P = js ''LLM response '' @ today P"

text \<open>
  \<open>titleResponse.replace(/^["']|["']$|[.:]$/g, "")\<close>: a quote at the start is removed, and
  the last character is removed when it is a quote, a full stop or a colon (and was not the
  quote at the start).
\<close>

definition isQuote :: "jschar \<Rightarrow> bool" where
  "isQuote c \<longleftrightarrow> c = 0x22 \<or> c = 0x27"

fun stripTitleEnd :: "jsstring \<Rightarrow> jsstring" where
  "stripTitleEnd [] = []"
| "stripTitleEnd [c] = (if isQuote c \<or> c = 0x2E \<or> c = 0x3A then [] else [c])"
| "stripTitleEnd (c # cs) = c # stripTitleEnd cs"

definition stripTitleChars :: "jsstring \<Rightarrow> jsstring" where
  "stripTitleChars t =
     (case t of
        [] \<Rightarrow> []
      | c # cs \<Rightarrow> if isQuote c then stripTitleEnd cs else stripTitleEnd (c # cs))"

definition titlePrompt :: "jsstring \<Rightarrow> jsstring \<Rightarrow> jsstring" where
  "titlePrompt query response =
     js (''Based on the following question and answer, suggest a concise, descriptive title (5-7 words max) that summarizes the main topic. Return ONLY the title text, nothing else.\<newline>''
           @ ''\<newline>''
           @ ''Question: '')
     @ query
     @ js (''\<newline>''
           @ ''\<newline>''
           @ ''Answer: '')
     @ take 500 response
     @ js (''... (truncated for brevity)'')"

definition generateTitleForResponse :: "platform \<Rightarrow> plugin \<Rightarrow> jsstring \<Rightarrow> jsstring \<Rightarrow> jsstring" where
  "generateTitleForResponse P pl query response =
     (case (let prompt = titlePrompt query response
            in bindE (queryProvider P pl prompt) (\<lambda>titleResponse.
               bindE (asString P titleResponse (js ''replace'')) (\<lambda>t.
               let cleanTitle = trim (stripTitleChars t)
               in Inr (if cleanTitle \<noteq> [] then cleanTitle else defaultTitle P)))) of
        Inr title \<Rightarrow> title
      | Inl error \<Rightarrow> defaultTitle P)"

text \<open>
  The title computed by the handler of the "Create note" button of the assistant view
  (\<open>noteTitle\<close>), from the query and the response shown.
\<close>

definition viewNoteTitle :: "platform \<Rightarrow> plugin \<Rightarrow> jsstring \<Rightarrow> jsstring \<Rightarrow> jsstring" where
  "viewNoteTitle P pl query response =
     (if generateTitlesWithLLM (settings pl)
      then generateTitleForResponse P pl query response
      else if length query > 50
      then trim (take 50 query) @ js ''...''
      else trim query)"

text \<open>
  The title computed by \<open>QueryModal.processQuery\<close> in create mode (\<open>title\<close>), from the query
  and the generated content.
\<close>

definition modalNoteTitle :: "platform \<Rightarrow> plugin \<Rightarrow> jsstring \<Rightarrow> jsstring \<Rightarrow> jsstring" where
  "modalNoteTitle P pl query content =
     (let title = defaultTitle P
      in if generateTitlesWithLLM (settings pl)
         then generateTitleForResponse P pl query content
         else title)"

section \<open>Links in the response\<close>

text \<open>
  The regular expression \<open>/\[\[([^\]]+)\]\]/\<close> at the head of \<open>text\<close>: two opening brackets,
  the longest non-empty run of characters other than a closing bracket (the captured group),
  and two closing brackets. Giving characters of the run back cannot help, since a closing
  bracket has to follow.
\<close>

definition wikiLinkMatch :: "jsstring \<Rightarrow> jsstring option" where
  "wikiLinkMatch text =
     (if prefix (js ''[['') text
      then (let cap = takeWhile (\<lambda>c. c \<noteq> 0x5D) (drop (length (js ''[['')) text)
            in if cap \<noteq> [] \<and> prefix (js '']]'') (drop (length (js ''[['') + length cap) text)
               then Some cap
               else None)
      else None)"

text \<open>The nodes that \<open>processWikiStyleLinks\<close> creates: text, and links with their \<open>href\<close>.\<close>

datatype node = TextNode jsstring | LinkEl jsstring

text \<open>
  The loop of \<open>processWikiStyleLinks\<close> over one paragraph and the code after it: \<open>pending\<close> is
  the text between \<open>lastIndex\<close> and the position of the search. The result is the document
  fragment.
\<close>

function wikiFragment :: "jsstring \<Rightarrow> jsstring \<Rightarrow> node list" where
  "wikiFragment pending [] = (if pending \<noteq> [] then [TextNode pending] else [])"
| "wikiFragment pending (c # cs) =
     (case wikiLinkMatch (c # cs) of
        Some cap \<Rightarrow>
          (if pending \<noteq> [] then [TextNode pending] else [])
          @ LinkEl (trim cap)
          # wikiFragment [] (drop (length (js ''[['') + length cap + length (js '']]'')) (c # cs))
      | None \<Rightarrow> wikiFragment (pending @ [c]) cs)"
  by pat_completeness auto
termination
  by (relation "measure (\<lambda>(pending, t). length t)") (auto simp: js_def)

text \<open>
  \<open>processWikiStyleLinks\<close> on the text of one paragraph: the new children of the paragraph,
  or \<open>None\<close> when no link was found and the paragraph is left as it is.
\<close>

definition processWikiStyleLinks :: "jsstring \<Rightarrow> node list option" where
  "processWikiStyleLinks t =
     (let nodes = wikiFragment [] t
      in if list_ex (\<lambda>n. case n of LinkEl p \<Rightarrow> True | TextNode s \<Rightarrow> False) nodes
         then Some nodes
         else None)"

text \<open>\<open>s.split(sep)\<close> for a separator; \<open>piece\<close> is the part collected since the last separator.\<close>

function splitFrom :: "jsstring \<Rightarrow> jsstring \<Rightarrow> jsstring \<Rightarrow> jsstring list" where
  "splitFrom sep piece [] = [piece]"
| "splitFrom sep piece (c # cs) =
     (if sep \<noteq> [] \<and> prefix sep (c # cs)
      then piece # splitFrom sep [] (drop (length sep) (c # cs))
      else splitFrom sep (piece @ [c]) cs)"
  by pat_completeness auto
termination
  by (relation "measure (\<lambda>(sep, piece, t). length t)") auto

text \<open>\<open>s.split(sep, 2)\<close>: at most the first two parts of the split.\<close>

definition split2 :: "jsstring \<Rightarrow> jsstring \<Rightarrow> jsstring list" where
  "split2 s sep = take 2 (splitFrom sep [] s)"

text \<open>
  \<open>s.toLowerCase()\<close>: on a string of ASCII characters the letters \<open>A\<close> to \<open>Z\<close> are shifted;
  other strings are lower-cased by the platform.
\<close>

definition toLowerCase :: "platform \<Rightarrow> jsstring \<Rightarrow> jsstring" where
  "toLowerCase P s =
     (if list_all (\<lambda>c. c < 0x80) s
      then map (\<lambda>c. if 0x41 \<le> c \<and> c \<le> 0x5A then c + 0x20 else c) s
      else unicodeLower P s)"

text \<open>\<open>s.replace(/\s+/g, "-")\<close>: every maximal run of white space becomes one hyphen.\<close>

function collapseSpaces :: "jsstring \<Rightarrow> jsstring" where
  "collapseSpaces [] = []"
| "collapseSpaces (c # cs) =
     (if isSpace c then 0x2D # collapseSpaces (dropWhile isSpace cs)
      else c # collapseSpaces cs)"
  by pat_completeness auto
termination
  by (relation "measure length") (auto simp: length_dropWhile_le less_Suc_eq_le)

text \<open>
  What \<open>processLinks\<close> computes for one link from its \<open>href\<close>: the file path, the fragment
  (empty, or \<open>#\<close> and the section) and the full path that the link is given.
\<close>

record link_target =
  filePath :: jsstring
  fragment :: jsstring
  fullPath :: jsstring

definition resolveHref :: "platform \<Rightarrow> jsstring \<Rightarrow> link_target" where
  "resolveHref P href =
     (let cleanHref = trim (filter (\<lambda>c. c \<noteq> 0x5B \<and> c \<noteq> 0x5D \<and> c \<noteq> 0x2C) href);
          (filePath, fragment) =
            (if includesStr cleanHref (js '' > '') then
               (case split2 cleanHref (js '' > '') of
                  p0 # p1 # _ \<Rightarrow>
                    (trim p0, js ''#'' @ collapseSpaces (toLowerCase P (trim p1)))
                | [p0] \<Rightarrow> (trim p0, [])
                | [] \<Rightarrow> (cleanHref, []))
             else if includesStr cleanHref (js ''#'') then
               (case split2 cleanHref (js ''#'') of
                  p0 # p1 # _ \<Rightarrow> (trim p0, js ''#'' @ trim p1)
                | [p0] \<Rightarrow> (trim p0, [])
                | [] \<Rightarrow> (cleanHref, []))
             else (cleanHref, []))
      in \<lparr> filePath = filePath, fragment = fragment,
           fullPath = (if fragment \<noteq> [] then filePath @ fragment else filePath) \<rparr>)"

text \<open>
  \<open>processLinks\<close> on a paragraph of plain text: the wiki-style links are created first, and
  each link whose \<open>href\<close> (or else its trimmed text) is not empty is resolved.
\<close>

definition linkHref :: "node \<Rightarrow> jsstring list" where
  "linkHref n =
     (case n of
        LinkEl p \<Rightarrow> (let href = (if p \<noteq> [] then p else trim p) in if href \<noteq> [] then [href] else [])
      | TextNode s \<Rightarrow> [])"

definition processLinks :: "platform \<Rightarrow> jsstring \<Rightarrow> link_target list" where
  "processLinks P t =
     (case processWikiStyleLinks t of
        Some nodes \<Rightarrow> map (resolveHref P) (concat (map linkHref nodes))
      | None \<Rightarrow> [])"

section \<open>The stored API keys\<close>

text \<open>
  What \<open>getDeviceId\<close> reads from its environment: \<open>navigator.userAgent\<close> and the name of
  the vault.
\<close>

record host =
  userAgent :: jsstring
  vaultName :: jsstring

text \<open>
  One round of the hash loop: \<open>hash = (hash << 5) - hash + char; hash = hash & hash\<close>, which
  keeps the low 32 bits.
\<close>

definition hashStep :: "32 word \<Rightarrow> jschar \<Rightarrow> 32 word" where
  "hashStep hash char = push_bit 5 hash - hash + ucast char"

text \<open>\<open>n.toString(16)\<close> for a natural number.\<close>

definition hexDigit :: "nat \<Rightarrow> jschar" where
  "hexDigit d = (if d < 10 then of_nat (48 + d) else of_nat (87 + d))"

function toHex :: "nat \<Rightarrow> jsstring" where
  "toHex n = (if n < 16 then [hexDigit n] else toHex (n div 16) @ [hexDigit (n mod 16)])"
  by pat_completeness auto
termination
  by (relation "measure id") auto

declare toHex.simps [simp del]

text \<open>\<open>s.padStart(16, "0")\<close>\<close>

definition padStart16 :: "jsstring \<Rightarrow> jsstring" where
  "padStart16 s = replicate (16 - length s) 0x30 @ s"

definition getDeviceId :: "host \<Rightarrow> jsstring" where
  "getDeviceId h =
     (let userAgentInfo = (if userAgent h \<noteq> [] then userAgent h else js ''unknown'');
          vaultPath = (if vaultName h \<noteq> [] then vaultName h else js ''obsidian'');
          seed = userAgentInfo @ js ''-'' @ vaultPath;
          hash = foldl hashStep 0 seed
      in padStart16 (toHex (nat \<bar>sint hash\<bar>)))"

text \<open>
  The errors that \<open>encryptApiKey\<close> can throw: \<open>charCodeAt\<close> on \<open>undefined\<close>, and the error of
  \<open>btoa\<close> on a character above U+00FF.
\<close>

datatype key_error = TypeError | InvalidCharacterError

text \<open>
  \<open>s.split("").map((char, index) => String.fromCharCode(char.charCodeAt(0) ^
  deviceId[index % deviceId.length].charCodeAt(0))).join("")\<close>, from the index \<open>index\<close> on;
  \<open>None\<close> when \<open>deviceId\<close> has no character to read.
\<close>

fun mixChars :: "jsstring \<Rightarrow> nat \<Rightarrow> jsstring \<Rightarrow> jsstring option" where
  "mixChars deviceId index [] = Some []"
| "mixChars deviceId index (char # rest) =
     (if deviceId = [] then None
      else map_option ((#) (char XOR deviceId ! (index mod length deviceId)))
             (mixChars deviceId (Suc index) rest))"

text \<open>
  \<open>btoa\<close> and \<open>atob\<close> of the platform, after the HTML standard: the base64 alphabet, the
  encoding of bytes three at a time with \<open>=\<close> padding, and the forgiving decoding.
\<close>

definition b64char :: "nat \<Rightarrow> jschar" where
  "b64char i =
     (if i < 26 then of_nat (65 + i)
      else if i < 52 then of_nat (97 + (i - 26))
      else if i < 62 then of_nat (48 + (i - 52))
      else if i = 62 then 0x2B
      else 0x2F)"

definition b64val :: "jschar \<Rightarrow> nat option" where
  "b64val c =
     (if 0x41 \<le> c \<and> c \<le> 0x5A then Some (unat c - 65)
      else if 0x61 \<le> c \<and> c \<le> 0x7A then Some (unat c - 97 + 26)
      else if 0x30 \<le> c \<and> c \<le> 0x39 then Some (unat c - 48 + 52)
      else if c = 0x2B then Some 62
      else if c = 0x2F then Some 63
      else None)"

fun b64encode :: "nat list \<Rightarrow> jsstring" where
  "b64encode (a # b # c # rest) =
     [b64char (a div 4), b64char ((a mod 4) * 16 + b div 16),
      b64char ((b mod 16) * 4 + c div 64), b64char (c mod 64)] @ b64encode rest"
| "b64encode [a, b] =
     [b64char (a div 4), b64char ((a mod 4) * 16 + b div 16), b64char ((b mod 16) * 4), 0x3D]"
| "b64encode [a] = [b64char (a div 4), b64char ((a mod 4) * 16), 0x3D, 0x3D]"
| "b64encode [] = []"

definition btoa :: "jsstring \<Rightarrow> key_error + jsstring" where
  "btoa data =
     (if list_ex (\<lambda>c. c > 0xFF) data then Inl InvalidCharacterError
      else Inr (b64encode (map unat data)))"

definition isAsciiWhitespace :: "jschar \<Rightarrow> bool" where
  "isAsciiWhitespace c \<longleftrightarrow> c = 0x09 \<or> c = 0x0A \<or> c = 0x0C \<or> c = 0x0D \<or> c = 0x20"

definition stripPadding :: "jsstring \<Rightarrow> jsstring" where
  "stripPadding d =
     (if length d mod 4 = 0
      then (if suffix [0x3D, 0x3D] d then butlast (butlast d)
            else if suffix [0x3D] d then butlast d
            else d)
      else d)"

fun b64decode :: "nat list \<Rightarrow> nat list" where
  "b64decode (s1 # s2 # s3 # s4 # rest) =
     [s1 * 4 + s2 div 16, (s2 mod 16) * 16 + s3 div 4, (s3 mod 4) * 64 + s4] @ b64decode rest"
| "b64decode [s1, s2, s3] = [s1 * 4 + s2 div 16, (s2 mod 16) * 16 + s3 div 4]"
| "b64decode [s1, s2] = [s1 * 4 + s2 div 16]"
| "b64decode [s1] = []"
| "b64decode [] = []"

definition atob :: "jsstring \<Rightarrow> jsstring option" where
  "atob data0 =
     (let data = filter (\<lambda>c. \<not> isAsciiWhitespace c) data0;
          data = stripPadding data
      in if length data mod 4 = 1 then None
         else (case those (map b64val data) of
                 None \<Rightarrow> None
               | Some sextets \<Rightarrow> Some (map of_nat (b64decode sextets))))"

text \<open>\<open>encryptApiKey\<close>: \<open>Inl\<close> is an error thrown to the caller.\<close>

definition encryptApiKey :: "host \<Rightarrow> jsstring \<Rightarrow> key_error + jsstring" where
  "encryptApiKey h apiKey =
     (if apiKey = [] then Inr []
      else (let deviceId = getDeviceId h
            in case mixChars deviceId 0 apiKey of
                 None \<Rightarrow> Inl TypeError
               | Some mixed \<Rightarrow> btoa mixed))"

text \<open>\<open>decryptApiKey\<close>: whatever is thrown inside is caught and the empty string returned.\<close>

definition decryptApiKey :: "host \<Rightarrow> jsstring \<Rightarrow> jsstring" where
  "decryptApiKey h encryptedKey =
     (if encryptedKey = [] then []
      else (let deviceId = getDeviceId h
            in case atob encryptedKey of
                 None \<Rightarrow> []
               | Some decoded \<Rightarrow>
                   (case mixChars deviceId 0 decoded of
                      None \<Rightarrow> []
                    | Some key \<Rightarrow> key)))"

text \<open>The six-bit groups and the number of padding characters of an encoding.\<close>

fun sextets :: "nat list \<Rightarrow> nat list" where
  "sextets (a # b # c # rest) =
     [a div 4, (a mod 4) * 16 + b div 16, (b mod 16) * 4 + c div 64, c mod 64] @ sextets rest"
| "sextets [a, b] = [a div 4, (a mod 4) * 16 + b div 16, (b mod 16) * 4]"
| "sextets [a] = [a div 4, (a mod 4) * 16]"
| "sextets [] = []"

fun padCount :: "nat list \<Rightarrow> nat" where
  "padCount (a # b # c # rest) = padCount rest"
| "padCount [a, b] = 1"
| "padCount [a] = 2"
| "padCount [] = 0"

section \<open>Example vault and settings\<close>

definition defaultSettings :: settings where
  "defaultSettings =
     \<lparr> modelProvider = js ''gemini'', model = js ''gemini-3-pro-preview'',
       lmStudioApiUrl = js ''http://localhost:1234/v1'', lmStudioModel = js ''local-model'',
       useLocalLLM = False, maxTokens = 2000, temperature = 7 / 10,
       includeCurrentFileOnly = False, includeFolder = [], excludeFolder = [],
       newNoteFolder = [], generateTitlesWithLLM = True, useVaultContent = True,
       mode = js ''query'' \<rparr>"

definition fileX :: tfile where
  "fileX = \<lparr> path = js ''private/x.md'' \<rparr>"

definition fileY :: tfile where
  "fileY = \<lparr> path = js ''public/y.md'' \<rparr>"

definition exampleVault :: vault where
  "exampleVault =
     \<lparr> getMarkdownFiles = [fileX, fileY],
       cachedRead = (\<lambda>f. if path f = js ''private/x.md'' then Some (js ''secret'')
                          else if path f = js ''public/y.md'' then Some (js ''hello'')
                          else None) \<rparr>"

definition filterSettings :: settings where
  "filterSettings = defaultSettings \<lparr> includeFolder := js ''p'', excludeFolder := [js ''private/''] \<rparr>"

definition currentOnlySettings :: settings where
  "currentOnlySettings = filterSettings \<lparr> includeCurrentFileOnly := True \<rparr>"

definition noContextSettings :: settings where
  "noContextSettings = currentOnlySettings \<lparr> useVaultContent := False \<rparr>"






definition examplePlugin :: plugin where
  "examplePlugin =
     \<lparr> settings = defaultSettings, openAIApiKey = js ''sk-test'', geminiApiKey = js ''AIza-test'' \<rparr>"

text \<open>A platform whose network always answers with the same parsed body.\<close>

definition stubPlatform :: "jsval \<Rightarrow> platform" where
  "stubPlatform b =
     \<lparr> requestUrl = (\<lambda>r. Inr \<lparr> json = Inr b \<rparr>),
       JSON_parse = (\<lambda>s. None),
       toStr = (\<lambda>v. case v of JStr s \<Rightarrow> s | _ \<Rightarrow> js ''?''),
       typeErrorMessage = (\<lambda>v k. js ''Cannot read properties''),
       coercedGtZero = (\<lambda>v. False),
       unicodeLower = (\<lambda>s. s),
       today = js ''2026-11-02'' \<rparr>"

text \<open>A platform whose network always throws the same error.\<close>

definition failPlatform :: "js_error \<Rightarrow> platform" where
  "failPlatform e = (stubPlatform JNull) \<lparr> requestUrl := (\<lambda>r. Inl e) \<rparr>"

definition rateLimited :: js_error where
  "rateLimited =
     \<lparr> err_text = None, err_status = Some 429, err_message = Some (js ''Request failed, status 429'') \<rparr>"

definition errorBody :: jsval where
  "errorBody = JObj [(js ''error'', JObj [(js ''message'', JStr (js ''quota''))])]"

definition answerAndErrorBody :: jsval where
  "answerAndErrorBody =
     JObj [(js ''candidates'',
             JArr [JObj [(js ''content'',
                          JObj [(js ''parts'', JArr [JObj [(js ''text'', JStr (js ''hi''))]])])]]),
           (js ''error'', JObj [(js ''message'', JStr (js ''quota''))])]"

definition unknownProviderPlugin :: plugin where
  "unknownProviderPlugin = examplePlugin \<lparr> settings := defaultSettings \<lparr> modelProvider := js ''claude'' \<rparr> \<rparr>"

definition noTitlePlugin :: plugin where
  "noTitlePlugin = examplePlugin \<lparr> settings := defaultSettings \<lparr> generateTitlesWithLLM := False \<rparr> \<rparr>"

definition gptPlugin :: plugin where
  "gptPlugin =
     examplePlugin \<lparr> settings := defaultSettings \<lparr> modelProvider := js ''gpt'', model := js ''o3-mini'' \<rparr> \<rparr>"

definition exampleHost :: host where
  "exampleHost =
     \<lparr> userAgent = js ''Mozilla/5.0 (X11; Linux x86_64) obsidian/1.5.3'', vaultName = js ''notes'' \<rparr>"

section \<open>Selection of the files (C1, C3)\<close>

lemma scanVault_files_all:
  "\<not> includeCurrentFileOnly s \<Longrightarrow>
   scanVault_files s v cur =
     filter (\<lambda>f. \<not> (\<exists>e \<in> set (excludeFolder s). startsWith (path f) e))
       (filter (\<lambda>f. includeFolder s = [] \<or> startsWith (path f) (includeFolder s))
          (getMarkdownFiles v))"
proof -
  assume off: "\<not> includeCurrentFileOnly s"
  have inc: "(if includeFolder s \<noteq> []
              then filter (\<lambda>file. startsWith (path file) (includeFolder s)) (getMarkdownFiles v)
              else getMarkdownFiles v)
           = filter (\<lambda>f. includeFolder s = [] \<or> startsWith (path f) (includeFolder s))
               (getMarkdownFiles v)"
    by simp
  have exc: "\<And>xs. (if length (excludeFolder s) > 0
              then filter (\<lambda>file. \<not> list_ex (\<lambda>folder. startsWith (path file) folder)
                                     (excludeFolder s)) xs
              else xs)
           = filter (\<lambda>f. \<not> (\<exists>e \<in> set (excludeFolder s). startsWith (path f) e)) xs"
    by (cases "excludeFolder s") (simp_all add: list_ex_iff)
  from off show ?thesis
    unfolding scanVault_files_def Let_def inc exc by simp
qed

text \<open>
  C1. With context inclusion enabled and "current file only" off, the files read by
  \<open>scanVault\<close> are the catalog filtered by the include prefix first (when it is non-empty)
  and by the exclude prefixes second: every selected path starts with a non-empty include
  filter, and no selected path starts with a member of the exclude list.
\<close>

theorem scanVault_include_then_exclude:
  assumes "useVaultContent s" and "\<not> includeCurrentFileOnly s"
  shows "scanVault s v extra cur = buildContext v extra (scanVault_files s v cur)
       \<and> (includeFolder s \<noteq> [] \<longrightarrow>
            (\<forall>f \<in> set (scanVault_files s v cur). startsWith (path f) (includeFolder s)))
       \<and> (\<forall>f \<in> set (scanVault_files s v cur). \<forall>e \<in> set (excludeFolder s).
            \<not> startsWith (path f) e)
       \<and> scanVault_files s v cur =
           filter (\<lambda>f. \<not> (\<exists>e \<in> set (excludeFolder s). startsWith (path f) e))
             (filter (\<lambda>f. includeFolder s = [] \<or> startsWith (path f) (includeFolder s))
                (getMarkdownFiles v))"
proof -
  note sel = scanVault_files_all [OF assms(2), of v cur]
  have "scanVault s v extra cur = buildContext v extra (scanVault_files s v cur)"
    using assms(1) by (simp add: scanVault_def)
  moreover have "includeFolder s \<noteq> [] \<longrightarrow>
      (\<forall>f \<in> set (scanVault_files s v cur). startsWith (path f) (includeFolder s))"
    unfolding sel by simp
  moreover have "\<forall>f \<in> set (scanVault_files s v cur). \<forall>e \<in> set (excludeFolder s).
      \<not> startsWith (path f) e"
    unfolding sel by simp
  ultimately show ?thesis using sel by blast
qed

lemma example_settings_simps:
  "useVaultContent filterSettings" "\<not> includeCurrentFileOnly filterSettings"
  "includeFolder filterSettings = js ''p''" "excludeFolder filterSettings = [js ''private/'']"
  "useVaultContent currentOnlySettings" "includeCurrentFileOnly currentOnlySettings"
  "\<not> useVaultContent noContextSettings" "includeCurrentFileOnly noContextSettings"
  by (simp_all add: filterSettings_def currentOnlySettings_def noContextSettings_def
        defaultSettings_def)

lemma example_vault_simps:
  "getMarkdownFiles exampleVault = [fileX, fileY]"
  "cachedRead exampleVault fileX = Some (js ''secret'')"
  "cachedRead exampleVault fileY = Some (js ''hello'')"
  "path fileX = js ''private/x.md''" "path fileY = js ''public/y.md''"
  by (simp_all add: exampleVault_def fileX_def fileY_def js_def)

theorem scanVault_include_then_exclude_witness:
  "useVaultContent filterSettings \<and> \<not> includeCurrentFileOnly filterSettings
   \<and> scanVault_files filterSettings exampleVault None = [fileY]
   \<and> startsWith (path fileY) (js ''p'') \<and> \<not> startsWith (path fileY) (js ''private/'')
   \<and> scanVault filterSettings exampleVault [] None = fileBlock (js ''public/y.md'') (js ''hello'')"
proof -
  have h1: "useVaultContent filterSettings" and h2: "\<not> includeCurrentFileOnly filterSettings"
    by (rule example_settings_simps)+
  note inst = scanVault_include_then_exclude [OF h1 h2, of exampleVault "[]" None]
  have files: "scanVault_files filterSettings exampleVault None = [fileY]"
    using inst by (simp add: example_settings_simps example_vault_simps startsWith_def js_def)
  have "startsWith (path fileY) (js ''p'')" "\<not> startsWith (path fileY) (js ''private/'')"
    using inst unfolding files by (simp_all add: example_settings_simps js_def)
  moreover have "scanVault filterSettings exampleVault [] None
      = fileBlock (js ''public/y.md'') (js ''hello'')"
    using inst unfolding files by (simp add: buildContext_def example_vault_simps)
  ultimately show ?thesis using h1 h2 files by simp
qed




section \<open>The context and its sources (C4)\<close>



















section \<open>Fence stripping (C5)\<close>

lemma ciEq_a_not_d: "ciEq 0x61 c \<Longrightarrow> \<not> ciEq 0x64 c"
  by (auto simp: ciEq_def)

lemma mdFence_tag:
  assumes "isFenceTag opener"
  shows "mdFence (opener @ rest) = Some (length opener)"
proof -
  from assms consider "list_all2 ciEq (js ''```md'') opener"
    | "list_all2 ciEq (js ''```markdown'') opener"
    by (auto simp: isFenceTag_def)
  then show ?thesis
  proof cases
    case 1
    then have "length opener = length (js ''```md'')"
      by (simp add: list_all2_lengthD)
    with 1 show ?thesis by (simp add: mdFence_def ciPrefix_def)
  next
    case 2
    then obtain c1 c2 c3 c4 c5 c6 c7 c8 c9 c10 c11
      where op: "opener = [c1, c2, c3, c4, c5, c6, c7, c8, c9, c10, c11]"
        and cs: "ciEq 0x60 c1" "ciEq 0x60 c2" "ciEq 0x60 c3" "ciEq 0x6D c4" "ciEq 0x61 c5"
          "ciEq 0x72 c6" "ciEq 0x6B c7" "ciEq 0x64 c8" "ciEq 0x6F c9" "ciEq 0x77 c10"
          "ciEq 0x6E c11"
      by (auto simp: js_def list_all2_Cons1)
    show ?thesis
      using cs ciEq_a_not_d [OF cs(5)] by (simp add: mdFence_def ciPrefix_def js_def op)
  qed
qed

lemma spacesNl_first_line:
  assumes "nl \<notin> set (takeWhile isSpace interior)" and "\<not> list_all isSpace interior"
  shows "spacesNl (nl # interior @ rest) = Some 1"
proof -
  from assms(2) obtain x where x: "x \<in> set interior" "\<not> isSpace x"
    by (auto simp: list_all_iff)
  let ?w = "takeWhile isSpace interior"
  have ws: "takeWhile isSpace (nl # interior @ rest) = nl # ?w"
    using x by (simp add: isSpace_def takeWhile_append1)
  have "\<forall>c \<in> set (rev ?w). c \<noteq> nl"
    using assms(1) by auto
  then have "takeWhile (\<lambda>c. c \<noteq> nl) (rev ?w @ [nl]) = rev ?w @ takeWhile (\<lambda>c. c \<noteq> nl) [nl]"
    by (intro takeWhile_append2) auto
  then show ?thesis
    unfolding spacesNl_def ws Let_def by simp
qed

lemma stripCloser_closer:
  "stripCloser (interior @ js ''\<newline>```'') = interior"
proof (induction interior)
  case Nil
  show ?case by (simp add: closerAt_def js_def)
next
  case (Cons x xs)
  let ?t = "x # xs @ js ''\<newline>```''"
  have len: "4 < length ?t" by (simp add: js_def)
  have ne: "drop 4 ?t \<noteq> []"
  proof
    assume "drop 4 ?t = []"
    then have "length ?t \<le> 4" by (simp only: drop_eq_Nil)
    with len show False by arith
  qed
  have "last (drop 4 ?t) = last ?t"
    using len by (rule last_drop)
  also have "\<dots> = 0x60" by (simp add: js_def)
  finally have "\<not> isSpace (last (drop 4 ?t))" by (simp add: isSpace_def)
  with ne have "\<not> list_all isSpace (drop 4 ?t)"
    using last_in_set [OF ne] by (auto simp: list_all_iff)
  moreover have "length (js ''\<newline>```'') = 4" by (simp add: js_def)
  ultimately have "\<not> closerAt ?t" unfolding closerAt_def by simp
  with Cons.IH show ?case by simp
qed

lemma prefix_includesStr: "prefix p text \<Longrightarrow> includesStr text p"
  by (cases "text") auto

lemma ciPrefix_backticks:
  assumes "ciPrefix (0x60 # 0x60 # 0x60 # pat) t"
  shows "prefix [0x60, 0x60, 0x60] t"
proof -
  from assms obtain c1 c2 c3 r where t: "t = c1 # c2 # c3 # r"
    by (auto simp: ciPrefix_def Suc_le_length_iff)
  with assms show ?thesis
    by (auto simp: ciPrefix_def ciEq_def)
qed

lemma mdFence_backticks: "mdFence t \<noteq> None \<Longrightarrow> prefix (js ''```'') t"
  using ciPrefix_backticks [of _ t]
  by (auto simp: mdFence_def js_def split: if_splits)

lemma no_fence_openerLen: "\<not> includesStr t (js ''```'') \<Longrightarrow> openerLen t = None"
  using mdFence_backticks [of t] prefix_includesStr [of "js ''```''" t]
  by (cases "mdFence t") (auto simp: openerLen_def)

lemma no_fence_stripCloser: "\<not> includesStr t (js ''```'') \<Longrightarrow> stripCloser t = t"
proof (induction t)
  case Nil
  show ?case by simp
next
  case (Cons c cs)
  then have nin: "\<not> includesStr cs (js ''```'')" by simp
  have "\<not> closerAt (c # cs)"
  proof
    assume "closerAt (c # cs)"
    then have "prefix (js ''```'') cs" by (simp add: closerAt_def js_def)
    with nin show False by (simp add: prefix_includesStr)
  qed
  with Cons.IH [OF nin] show ?case by simp
qed

lemma no_fence_fenceIndex: "\<not> includesStr t (js ''```'') \<Longrightarrow> fenceIndex t = None"
proof (induction t)
  case Nil
  show ?case by simp
next
  case (Cons c cs)
  then have np: "\<not> prefix (js ''```'') (c # cs)" and nin: "\<not> includesStr cs (js ''```'')"
    by simp_all
  have "mdFence (c # cs) = None"
    using mdFence_backticks [of "c # cs"] np by blast
  with Cons.IH [OF nin] show ?case by simp
qed

lemma cleanMarkdownResponse_no_fence:
  "\<not> includesStr t (js ''```'') \<Longrightarrow> cleanMarkdownResponse t = t"
  by (simp add: cleanMarkdownResponse_def stripOpener_def no_fence_openerLen
      no_fence_stripCloser no_fence_fenceIndex)

lemma cleanMarkdownResponse_fence:
  assumes "isFenceTag opener"
    and "nl \<notin> set (takeWhile isSpace interior)" and "\<not> list_all isSpace interior"
    and "fenceIndex interior = None \<or> fenceIndex interior = Some 0"
  shows "cleanMarkdownResponse (opener @ nl # interior @ js ''\<newline>```'') = interior"
proof -
  let ?rest = "nl # interior @ js ''\<newline>```''"
  have "openerLen (opener @ ?rest) = Some (length opener + 1)"
    using mdFence_tag [OF assms(1), of ?rest] spacesNl_first_line [OF assms(2,3)]
    by (simp add: openerLen_def)
  then have "stripOpener (opener @ ?rest) = interior @ js ''\<newline>```''"
    by (simp add: stripOpener_def)
  then show ?thesis
    using assms(4) by (auto simp: cleanMarkdownResponse_def stripCloser_closer)
qed

text \<open>
  C5 (as amended). If the input is a fence opener (\<open>```md\<close> or \<open>```markdown\<close>, any case), a line
  feed, an interior, a line feed and \<open>```\<close>, where the interior has a character that is not
  white space, has no line feed before its first such character, and contains no fence
  opener except possibly at its very start, then the output is the interior, unchanged.
  If the input contains no \<open>```\<close> at all, the output is the input.
\<close>

theorem cleanMarkdownResponse_strips_fence:
  "(isFenceTag opener \<and> nl \<notin> set (takeWhile isSpace interior) \<and> \<not> list_all isSpace interior
      \<and> (fenceIndex interior = None \<or> fenceIndex interior = Some 0)
    \<longrightarrow> cleanMarkdownResponse (opener @ nl # interior @ js ''\<newline>```'') = interior)
   \<and> (\<not> includesStr t (js ''```'') \<longrightarrow> cleanMarkdownResponse t = t)"
  using cleanMarkdownResponse_fence [of opener interior] cleanMarkdownResponse_no_fence [of t]
  by blast

theorem cleanMarkdownResponse_strips_fence_witness:
  "isFenceTag (js ''```Markdown'')
   \<and> cleanMarkdownResponse (js ''```Markdown\<newline># Black holes\<newline>...\<newline>```'')
       = js ''# Black holes\<newline>...''
   \<and> \<not> includesStr (js ''plain `text`'') (js ''```'')
   \<and> cleanMarkdownResponse (js ''plain `text`'') = js ''plain `text`''"
proof -
  let ?interior = "js ''# Black holes\<newline>...''"
  have tag: "isFenceTag (js ''```Markdown'')"
    by (simp add: isFenceTag_def js_def ciEq_def)
  have h2: "nl \<notin> set (takeWhile isSpace ?interior)"
    and h3: "\<not> list_all isSpace ?interior"
    by (simp_all add: js_def isSpace_def)
  have h4: "fenceIndex ?interior = None"
    by (simp add: js_def mdFence_def ciPrefix_def ciEq_def)
  have h5: "\<not> includesStr (js ''plain `text`'') (js ''```'')"
    by (simp add: js_def)
  have eq: "js ''```Markdown'' @ nl # ?interior @ js ''\<newline>```''
      = js ''```Markdown\<newline># Black holes\<newline>...\<newline>```''"
    by (simp add: js_def)
  note inst = cleanMarkdownResponse_strips_fence
    [of "js ''```Markdown''" ?interior "js ''plain `text`''"]
  from inst tag h2 h3 h4 have "cleanMarkdownResponse
      (js ''```Markdown'' @ nl # ?interior @ js ''\<newline>```'') = ?interior"
    by blast
  moreover from inst h5 have "cleanMarkdownResponse (js ''plain `text`'') = js ''plain `text`''"
    by blast
  ultimately show ?thesis using tag h5 unfolding eq by blast
qed

text \<open>
  As the specification states it, C5 fails in two ways that the code intends: text before a second
  fence opener inside the fenced block is discarded with that opener, and blank lines at the
  start of the interior go with the opener.
\<close>

theorem cleanMarkdownResponse_strips_fence_counterexample:
  "isFenceTag (js ''```md'')
   \<and> cleanMarkdownResponse (js ''```md'' @ nl # js ''intro\<newline>```md\<newline>body'' @ js ''\<newline>```'')
       = js ''body''
   \<and> js ''body'' \<noteq> js ''intro\<newline>```md\<newline>body''
   \<and> cleanMarkdownResponse (js ''```md'' @ nl # js ''\<newline># Title'' @ js ''\<newline>```'')
       = js ''# Title''
   \<and> js ''# Title'' \<noteq> js ''\<newline># Title''"
  by code_simp

section \<open>The token limit of an OpenAI request (C7)\<close>

lemma find_distinct_key:
  "distinct (map f xs) \<Longrightarrow> m \<in> set xs \<Longrightarrow> find (\<lambda>x. f x = f m) xs = Some m"
  by (induction xs) (auto simp: image_iff)

lemma catalog_ids_distinct: "distinct (map model_id OPENAI_MODELS)"
  by (simp add: OPENAI_MODELS_def js_def)

lemma catalog_shapes:
  "\<forall>m \<in> set OPENAI_MODELS.
     (endpoint m = Some (js ''/v1/responses'') \<and> \<not> useMaxCompletionTokens m) \<or> endpoint m = None"
  by (simp add: OPENAI_MODELS_def)

lemma key_simps:
  "js ''max_tokens'' \<noteq> js ''model''" "js ''max_tokens'' \<noteq> js ''temperature''"
  "js ''max_tokens'' \<noteq> js ''input''" "js ''max_tokens'' \<noteq> js ''messages''"
  "js ''max_tokens'' \<noteq> js ''max_completion_tokens''"
  "js ''max_completion_tokens'' \<noteq> js ''model''" "js ''max_completion_tokens'' \<noteq> js ''temperature''"
  "js ''max_completion_tokens'' \<noteq> js ''input''" "js ''max_completion_tokens'' \<noteq> js ''messages''"
  "js ''model'' \<noteq> js ''input''" "js ''model'' \<noteq> js ''messages''"
  "js ''temperature'' \<noteq> js ''input''" "js ''temperature'' \<noteq> js ''messages''"
  "js ''/v1/chat/completions'' \<noteq> js ''/v1/responses''"
  "js ''/v1/chat/completions'' \<noteq> js ''/v1/completions''"
  "js ''/v1/responses'' \<noteq> []"
  by (simp_all add: js_def)

lemma queryGPT_body_responses:
  assumes "findModelConfig s = Some m" and "endpoint m = Some (js ''/v1/responses'')"
    and "\<not> useMaxCompletionTokens m"
  shows "map_of (queryGPT_body s prompt) (js ''max_tokens'') = None"
    and "map_of (queryGPT_body s prompt) (js ''max_completion_tokens'') = None"
  using assms key_simps by (simp_all add: queryGPT_body_def gptEndpoint_def)

lemma queryGPT_body_chat:
  assumes "findModelConfig s = Some m" and "endpoint m = None"
  shows "useMaxCompletionTokens m \<Longrightarrow>
           map_of (queryGPT_body s prompt) (js ''max_completion_tokens'') = Some (JNum (maxTokens s))"
    and "useMaxCompletionTokens m \<Longrightarrow> map_of (queryGPT_body s prompt) (js ''max_tokens'') = None"
    and "\<not> useMaxCompletionTokens m \<Longrightarrow>
           map_of (queryGPT_body s prompt) (js ''max_tokens'') = Some (JNum (maxTokens s))"
    and "\<not> useMaxCompletionTokens m \<Longrightarrow>
           map_of (queryGPT_body s prompt) (js ''max_completion_tokens'') = None"
  using assms key_simps key_simps [symmetric]
  by (simp_all add: queryGPT_body_def gptEndpoint_def)

text \<open>
  C7. For every model id of the catalog \<open>OPENAI_MODELS\<close>, the body of the request of
  \<open>queryGPT\<close> has neither \<open>max_tokens\<close> nor \<open>max_completion_tokens\<close> when the entry's
  endpoint is \<open>/v1/responses\<close>; it has \<open>max_completion_tokens\<close>, equal to the configured
  \<open>maxTokens\<close>, and no \<open>max_tokens\<close> when the entry sets \<open>useMaxCompletionTokens\<close>; otherwise
  it has \<open>max_tokens\<close>, equal to \<open>maxTokens\<close> (and no \<open>max_completion_tokens\<close>).
\<close>

theorem queryGPT_token_limit_parameter:
  assumes "m \<in> set OPENAI_MODELS" and "model (settings pl) = model_id m"
  shows "body (queryGPT_request pl prompt) = JObj (queryGPT_body (settings pl) prompt)
       \<and> (endpoint m = Some (js ''/v1/responses'') \<longrightarrow>
            map_of (queryGPT_body (settings pl) prompt) (js ''max_tokens'') = None
            \<and> map_of (queryGPT_body (settings pl) prompt) (js ''max_completion_tokens'') = None)
       \<and> (useMaxCompletionTokens m \<longrightarrow>
            map_of (queryGPT_body (settings pl) prompt) (js ''max_completion_tokens'')
              = Some (JNum (maxTokens (settings pl)))
            \<and> map_of (queryGPT_body (settings pl) prompt) (js ''max_tokens'') = None)
       \<and> (endpoint m \<noteq> Some (js ''/v1/responses'') \<and> \<not> useMaxCompletionTokens m \<longrightarrow>
            map_of (queryGPT_body (settings pl) prompt) (js ''max_tokens'')
              = Some (JNum (maxTokens (settings pl)))
            \<and> map_of (queryGPT_body (settings pl) prompt) (js ''max_completion_tokens'') = None)"
proof -
  have found: "findModelConfig (settings pl) = Some m"
    unfolding findModelConfig_def assms(2)
    by (rule find_distinct_key [OF catalog_ids_distinct assms(1)])
  from catalog_shapes assms(1)
  consider "endpoint m = Some (js ''/v1/responses'')" "\<not> useMaxCompletionTokens m"
    | "endpoint m = None"
    by auto
  then show ?thesis
  proof cases
    case 1
    with queryGPT_body_responses [OF found 1, of prompt] show ?thesis
      by (simp add: queryGPT_request_def)
  next
    case 2
    with queryGPT_body_chat [OF found 2, of prompt] show ?thesis
      by (simp add: queryGPT_request_def)
  qed
qed

theorem queryGPT_token_limit_parameter_witness:
  "\<lparr> model_id = js ''o3-mini'', model_name = js ''o3 Mini'', endpoint = None,
      useMaxCompletionTokens = True \<rparr> \<in> set OPENAI_MODELS
   \<and> model (settings gptPlugin) = js ''o3-mini''
   \<and> map_of (queryGPT_body (settings gptPlugin) (js ''hello'')) (js ''max_completion_tokens'')
       = Some (JNum 2000)
   \<and> map_of (queryGPT_body (settings gptPlugin) (js ''hello'')) (js ''max_tokens'') = None"
proof -
  let ?m = "\<lparr> model_id = js ''o3-mini'', model_name = js ''o3 Mini'', endpoint = None,
      useMaxCompletionTokens = True \<rparr>"
  have h1: "?m \<in> set OPENAI_MODELS"
    by (simp add: OPENAI_MODELS_def)
  have h2: "model (settings gptPlugin) = model_id ?m"
    by (simp add: gptPlugin_def examplePlugin_def defaultSettings_def)
  have mt: "maxTokens (settings gptPlugin) = 2000"
    by (simp add: gptPlugin_def examplePlugin_def defaultSettings_def)
  show ?thesis
    using h1 h2 queryGPT_token_limit_parameter [OF h1 h2, of "js ''hello''"]
    by (simp add: mt)
qed

section \<open>Failures of the adapters (C2)\<close>

lemma queryGPT_catch_prefix: "startsWith (queryGPT_catch P e) (js ''Error querying OpenAI: '')"
  by (simp add: queryGPT_catch_def startsWith_def Let_def split: option.split)

lemma queryGemini_catch_prefix: "startsWith (queryGemini_catch P e) (js ''Error querying Gemini: '')"
  by (simp add: queryGemini_catch_def startsWith_def Let_def split: option.split)

lemma queryLMStudio_catch_prefix:
  "startsWith (queryLMStudio_catch P e) (js ''Error querying LM Studio: '')"
  by (simp add: queryLMStudio_catch_def startsWith_def Let_def split: option.split)

lemma queryGPT_throws:
  "requestUrl P (queryGPT_request pl prompt) = Inl e \<Longrightarrow>
   queryGPT P pl prompt = Inr (JStr (queryGPT_catch P e))"
  by (simp add: queryGPT_def bindE_def)

lemma queryGemini_throws:
  "requestUrl P (queryGemini_request pl prompt) = Inl e \<Longrightarrow>
   queryGemini P pl prompt = Inr (JStr (queryGemini_catch P e))"
  by (simp add: queryGemini_def bindE_def)

lemma queryLMStudio_throws:
  "requestUrl P (queryLMStudio_request pl prompt) = Inl e \<Longrightarrow>
   queryLMStudio P pl prompt = Inr (JStr (queryLMStudio_catch P e))"
  by (simp add: queryLMStudio_def bindE_def)

lemma truthy_getProp: "truthy v \<Longrightarrow> \<exists>w. getProp P v k = Inr w"
  by (cases v) simp_all

lemma geminiResult_inline_error:
  assumes "hasItems P b (js ''candidates'') = Inr False"
    and "getProp P b (js ''error'') = Inr err" and "truthy err"
  shows "\<exists>t. geminiResult P b = Inr (JStr t) \<and> startsWith t (js ''Gemini API Error: '')"
proof -
  from truthy_getProp [OF assms(3)] obtain msg where "getProp P err (js ''message'') = Inr msg"
    by blast
  with assms show ?thesis
    by (simp add: geminiResult_def bindE_def startsWith_def)
qed

text \<open>
  C2 (as amended). When the network call of \<open>queryGPT\<close>, \<open>queryGemini\<close> or \<open>queryLMStudio\<close>
  throws (an error with a status, or one without), the function returns a string that begins
  with \<open>Error querying OpenAI: \<close>, \<open>Error querying Gemini: \<close> or \<open>Error querying LM Studio: \<close>
  respectively and throws nothing. When the body of a Gemini response has no non-empty
  \<open>candidates\<close> and carries a truthy \<open>error\<close>, \<open>queryGemini\<close> returns a string that begins
  with \<open>Gemini API Error: \<close>.
\<close>

theorem adapter_failure_returns_prefixed_string:
  "(requestUrl P (queryGPT_request pl prompt) = Inl e \<longrightarrow>
      (\<exists>t. queryGPT P pl prompt = Inr (JStr t) \<and> startsWith t (js ''Error querying OpenAI: '')))
   \<and> (requestUrl P (queryGemini_request pl prompt) = Inl e \<longrightarrow>
      (\<exists>t. queryGemini P pl prompt = Inr (JStr t)
           \<and> startsWith t (js ''Error querying Gemini: '')))
   \<and> (requestUrl P (queryLMStudio_request pl prompt) = Inl e \<longrightarrow>
      (\<exists>t. queryLMStudio P pl prompt = Inr (JStr t)
           \<and> startsWith t (js ''Error querying LM Studio: '')))
   \<and> (requestUrl P (queryGemini_request pl prompt) = Inr r \<and> json r = Inr b
        \<and> hasItems P b (js ''candidates'') = Inr False
        \<and> getProp P b (js ''error'') = Inr err \<and> truthy err \<longrightarrow>
      (\<exists>t. queryGemini P pl prompt = Inr (JStr t) \<and> startsWith t (js ''Gemini API Error: '')))"
proof (intro conjI impI)
  assume "requestUrl P (queryGPT_request pl prompt) = Inl e"
  then show "\<exists>t. queryGPT P pl prompt = Inr (JStr t) \<and> startsWith t (js ''Error querying OpenAI: '')"
    using queryGPT_catch_prefix by (simp add: queryGPT_throws)
next
  assume "requestUrl P (queryGemini_request pl prompt) = Inl e"
  then show "\<exists>t. queryGemini P pl prompt = Inr (JStr t)
      \<and> startsWith t (js ''Error querying Gemini: '')"
    using queryGemini_catch_prefix by (simp add: queryGemini_throws)
next
  assume "requestUrl P (queryLMStudio_request pl prompt) = Inl e"
  then show "\<exists>t. queryLMStudio P pl prompt = Inr (JStr t)
      \<and> startsWith t (js ''Error querying LM Studio: '')"
    using queryLMStudio_catch_prefix by (simp add: queryLMStudio_throws)
next
  assume a: "requestUrl P (queryGemini_request pl prompt) = Inr r \<and> json r = Inr b
        \<and> hasItems P b (js ''candidates'') = Inr False
        \<and> getProp P b (js ''error'') = Inr err \<and> truthy err"
  then obtain t where "geminiResult P b = Inr (JStr t)"
    and "startsWith t (js ''Gemini API Error: '')"
    using geminiResult_inline_error [of P b err] by blast
  with a show "\<exists>t. queryGemini P pl prompt = Inr (JStr t)
      \<and> startsWith t (js ''Gemini API Error: '')"
    by (simp add: queryGemini_def bindE_def)
qed

lemma stubPlatform_simps:
  "requestUrl (stubPlatform b) r = Inr \<lparr> json = Inr b \<rparr>"
  "requestUrl (failPlatform e) r = Inl e"
  "toStr (stubPlatform b) (JStr s) = s"
  "today (stubPlatform b) = js ''2026-11-02''"
  by (simp_all add: stubPlatform_def failPlatform_def)

theorem adapter_failure_returns_prefixed_string_witness:
  "requestUrl (failPlatform rateLimited) (queryGPT_request examplePlugin (js ''q'')) = Inl rateLimited
   \<and> (\<exists>t. queryGPT (failPlatform rateLimited) examplePlugin (js ''q'') = Inr (JStr t)
          \<and> startsWith t (js ''Error querying OpenAI: ''))
   \<and> (\<exists>t. queryGemini (failPlatform rateLimited) examplePlugin (js ''q'') = Inr (JStr t)
          \<and> startsWith t (js ''Error querying Gemini: ''))
   \<and> (\<exists>t. queryLMStudio (failPlatform rateLimited) examplePlugin (js ''q'') = Inr (JStr t)
          \<and> startsWith t (js ''Error querying LM Studio: ''))
   \<and> hasItems (stubPlatform errorBody) errorBody (js ''candidates'') = Inr False
   \<and> (\<exists>t. queryGemini (stubPlatform errorBody) examplePlugin (js ''q'') = Inr (JStr t)
          \<and> startsWith t (js ''Gemini API Error: ''))"
proof -
  note f = adapter_failure_returns_prefixed_string
    [of "failPlatform rateLimited" examplePlugin "js ''q''" rateLimited]
  note g = adapter_failure_returns_prefixed_string
    [of "stubPlatform errorBody" examplePlugin "js ''q''" _ "\<lparr> json = Inr errorBody \<rparr>"
      errorBody "JObj [(js ''message'', JStr (js ''quota''))]"]
  have h: "hasItems (stubPlatform errorBody) errorBody (js ''candidates'') = Inr False"
    by (simp add: hasItems_def bindE_def errorBody_def js_def)
  have e: "getProp (stubPlatform errorBody) errorBody (js ''error'')
      = Inr (JObj [(js ''message'', JStr (js ''quota''))])"
    by (simp add: errorBody_def)
  from g h e have "\<exists>t. queryGemini (stubPlatform errorBody) examplePlugin (js ''q'') = Inr (JStr t)
      \<and> startsWith t (js ''Gemini API Error: '')"
    by (simp add: stubPlatform_simps)
  with f h show ?thesis
    by (simp add: stubPlatform_simps)
qed

text \<open>
  As the specification states it, C2 counts every Gemini body with an inline error object
  as a failure.
  The function looks at \<open>candidates\<close> first: a body with both returns the candidate's text.
\<close>

theorem adapter_failure_returns_prefixed_string_counterexample:
  "getProp (stubPlatform answerAndErrorBody) answerAndErrorBody (js ''error'')
     = Inr (JObj [(js ''message'', JStr (js ''quota''))])
   \<and> queryGemini (stubPlatform answerAndErrorBody) examplePlugin (js ''q'') = Inr (JStr (js ''hi''))
   \<and> \<not> startsWith (js ''hi'') (js ''Gemini API Error: '')
   \<and> \<not> startsWith (js ''hi'') (js ''Error querying Gemini: '')"
proof -
  have "hasItems (stubPlatform answerAndErrorBody) answerAndErrorBody (js ''candidates'') = Inr True"
    by (simp add: hasItems_def bindE_def answerAndErrorBody_def)
  then have "geminiResult (stubPlatform answerAndErrorBody) answerAndErrorBody = Inr (JStr (js ''hi''))"
    by (simp add: geminiResult_def bindE_def) (simp add: answerAndErrorBody_def)
  then have "queryGemini (stubPlatform answerAndErrorBody) examplePlugin (js ''q'')
      = Inr (JStr (js ''hi''))"
    by (simp add: queryGemini_def bindE_def stubPlatform_simps)
  moreover have "getProp (stubPlatform answerAndErrorBody) answerAndErrorBody (js ''error'')
      = Inr (JObj [(js ''message'', JStr (js ''quota''))])"
    by (simp add: answerAndErrorBody_def js_def)
  ultimately show ?thesis
    by (simp add: startsWith_def js_def)
qed

section \<open>An unknown provider (C10)\<close>

text \<open>
  C10. With \<open>useLocalLLM\<close> false and a \<open>modelProvider\<close> that is neither \<open>gpt\<close> nor \<open>gemini\<close>,
  \<open>queryLLM\<close> returns exactly the string \<open>Error: Unknown model provider\<close>, which the prefix
  test of the callers does not take for an error.
\<close>

theorem queryLLM_unknown_provider:
  assumes "\<not> useLocalLLM (settings pl)"
    and "modelProvider (settings pl) \<noteq> js ''gpt''"
    and "modelProvider (settings pl) \<noteq> js ''gemini''"
  shows "queryLLM P pl query vaultContent currentFilePath
           = Inr (JStr (js ''Error: Unknown model provider''))
       \<and> \<not> isErrorResponse (js ''Error: Unknown model provider'')"
proof -
  have "queryProvider P pl prompt = Inl (newError (js ''Unknown model provider''))" for prompt
    using assms by (simp add: queryProvider_def)
  then have "queryLLM P pl query vaultContent currentFilePath
      = Inr (JStr (js ''Error: '' @ js ''Unknown model provider''))"
    by (simp add: queryLLM_def bindE_def queryLLM_catch_def newError_def)
  moreover have "js ''Error: '' @ js ''Unknown model provider'' = js ''Error: Unknown model provider''"
    by (simp add: js_def)
  moreover have "\<not> isErrorResponse (js ''Error: Unknown model provider'')"
    by (simp add: isErrorResponse_def startsWith_def js_def)
  ultimately show ?thesis by simp
qed

theorem queryLLM_unknown_provider_witness:
  "\<not> useLocalLLM (settings unknownProviderPlugin)
   \<and> modelProvider (settings unknownProviderPlugin) = js ''claude''
   \<and> queryLLM (stubPlatform errorBody) unknownProviderPlugin (js ''q'') [] None
       = Inr (JStr (js ''Error: Unknown model provider''))
   \<and> \<not> isErrorResponse (js ''Error: Unknown model provider'')"
proof -
  have h1: "\<not> useLocalLLM (settings unknownProviderPlugin)"
    by (simp add: unknownProviderPlugin_def defaultSettings_def)
  have p: "modelProvider (settings unknownProviderPlugin) = js ''claude''"
    by (simp add: unknownProviderPlugin_def)
  have h2: "modelProvider (settings unknownProviderPlugin) \<noteq> js ''gpt''"
    and h3: "modelProvider (settings unknownProviderPlugin) \<noteq> js ''gemini''"
    unfolding p by (simp_all add: js_def)
  show ?thesis
    using h1 p queryLLM_unknown_provider [OF h1 h2 h3, of "stubPlatform errorBody" "js ''q''" "[]" None]
    by simp
qed

section \<open>The title of a note when titling by the LLM is disabled (C8)\<close>

lemma length_trim_le: "length (trim s) \<le> length s"
proof -
  have "length (trim s) = length (dropWhile isSpace (rev (dropWhile isSpace s)))"
    by (simp add: trim_def)
  also have "\<dots> \<le> length (rev (dropWhile isSpace s))"
    by (rule length_dropWhile_le)
  also have "\<dots> \<le> length s"
    by (simp add: length_dropWhile_le)
  finally show ?thesis .
qed

lemma trim_id:
  assumes "s \<noteq> []" and "\<not> isSpace (hd s)" and "\<not> isSpace (last s)"
  shows "trim s = s"
proof -
  from assms(1,2) have a: "dropWhile isSpace s = s"
    by (cases s) simp_all
  from assms(1,3) have "dropWhile isSpace (rev s) = rev s"
    by (cases "rev s") (simp_all add: last_rev [symmetric] del: last_rev)
  with a show ?thesis by (simp add: trim_def)
qed

text \<open>
  C8 (as amended). In the "Create note" flow of the assistant view with titling by the LLM
  disabled, the note title is the first 50 characters of the query (the whole query when it
  has at most 50), with white space trimmed at both ends, followed by \<open>...\<close> exactly when the
  query has more than 50 characters. It has at most 53 characters, and it is the untrimmed
  truncation when that neither starts nor ends with white space.
\<close>

theorem viewNoteTitle_truncates_query:
  assumes "\<not> generateTitlesWithLLM (settings pl)"
  shows "viewNoteTitle P pl query response
           = trim (take 50 query) @ (if length query > 50 then js ''...'' else [])
       \<and> length (viewNoteTitle P pl query response) \<le> 53
       \<and> (query \<noteq> [] \<and> \<not> isSpace (hd query) \<and> \<not> isSpace (last (take 50 query)) \<longrightarrow>
            viewNoteTitle P pl query response
              = take 50 query @ (if length query > 50 then js ''...'' else []))"
proof -
  have eq: "viewNoteTitle P pl query response
      = trim (take 50 query) @ (if length query > 50 then js ''...'' else [])"
    using assms by (simp add: viewNoteTitle_def)
  have "length (trim (take 50 query)) \<le> 50"
    using length_trim_le [of "take 50 query"] by simp
  moreover have "length (if length query > 50 then js ''...'' else []) \<le> 3"
    by (simp add: js_def)
  moreover have "length (viewNoteTitle P pl query response)
      = length (trim (take 50 query)) + length (if length query > 50 then js ''...'' else [])"
    unfolding eq by (simp only: length_append)
  ultimately have len: "length (viewNoteTitle P pl query response) \<le> 53"
    by linarith
  have "trim (take 50 query) = take 50 query"
    if "query \<noteq> []" "\<not> isSpace (hd query)" "\<not> isSpace (last (take 50 query))"
    using that by (intro trim_id) (simp_all add: hd_take)
  with eq len show ?thesis by simp
qed

theorem viewNoteTitle_truncates_query_witness:
  "\<not> generateTitlesWithLLM (settings noTitlePlugin)
   \<and> length (js ''Explain the difference between supermassive and stellar black holes'') = 67
   \<and> viewNoteTitle (stubPlatform errorBody) noTitlePlugin
        (js ''Explain the difference between supermassive and stellar black holes'') (js ''r'')
       = js ''Explain the difference between supermassive and st...''
   \<and> viewNoteTitle (stubPlatform errorBody) noTitlePlugin (js ''Black holes'') (js ''r'')
       = js ''Black holes''"
proof -
  have h: "\<not> generateTitlesWithLLM (settings noTitlePlugin)"
    by (simp add: noTitlePlugin_def)
  have t1: "trim (take 50 (js ''Explain the difference between supermassive and stellar black holes''))
      = js ''Explain the difference between supermassive and st''"
    by code_simp
  have t2: "trim (js ''Black holes'') = js ''Black holes''"
    by code_simp
  have l1: "length (js ''Explain the difference between supermassive and stellar black holes'') = 67"
    and l2: "length (js ''Black holes'') = 11"
    by (simp_all add: js_def)
  have c: "js ''Explain the difference between supermassive and st'' @ js ''...''
      = js ''Explain the difference between supermassive and st...''"
    by (simp add: js_def)
  from viewNoteTitle_truncates_query [OF h, THEN conjunct1]
  have "viewNoteTitle (stubPlatform errorBody) noTitlePlugin
        (js ''Explain the difference between supermassive and stellar black holes'') (js ''r'')
       = js ''Explain the difference between supermassive and st...''"
    and "viewNoteTitle (stubPlatform errorBody) noTitlePlugin (js ''Black holes'') (js ''r'')
       = js ''Black holes''"
    by (simp_all add: t1 t2 l1 l2 c)
  with h l1 show ?thesis by simp
qed

text \<open>
  As the specification states it, C8 speaks of the raw query and of every flow. The view trims the
  query, and the create flow of the modal keeps the date-stamped default title when titling
  by the LLM is disabled.
\<close>

theorem viewNoteTitle_truncates_query_counterexample:
  "\<not> generateTitlesWithLLM (settings noTitlePlugin)
   \<and> viewNoteTitle (stubPlatform errorBody) noTitlePlugin (js '' Black holes'') (js ''r'')
       = js ''Black holes''
   \<and> js ''Black holes'' \<noteq> js '' Black holes''
   \<and> modalNoteTitle (stubPlatform errorBody) noTitlePlugin (js ''Black holes'') (js ''r'')
       = js ''LLM response 2026-11-02''
   \<and> js ''LLM response 2026-11-02'' \<noteq> js ''Black holes''"
proof -
  have h: "\<not> generateTitlesWithLLM (settings noTitlePlugin)"
    by (simp add: noTitlePlugin_def)
  have "trim (js '' Black holes'') = js ''Black holes''"
    by code_simp
  then have "viewNoteTitle (stubPlatform errorBody) noTitlePlugin (js '' Black holes'') (js ''r'')
       = js ''Black holes''"
    using h by (simp add: viewNoteTitle_def js_def)
  moreover have "modalNoteTitle (stubPlatform errorBody) noTitlePlugin (js ''Black holes'') (js ''r'')
       = js ''LLM response 2026-11-02''"
    using h by (simp add: modalNoteTitle_def defaultTitle_def stubPlatform_simps js_def)
  ultimately show ?thesis using h by (simp add: js_def)
qed

section \<open>Normalisation of links (C6)\<close>

lemma wikiLinkMatch_reference:
  assumes "cap \<noteq> []" and "0x5D \<notin> set cap"
  shows "wikiLinkMatch (js ''[['' @ cap @ js '']]'' @ post) = Some cap"
proof -
  have "takeWhile (\<lambda>c. c \<noteq> 0x5D) (cap @ 0x5D # 0x5D # post) = cap"
    using assms(2) by (induction cap) auto
  then show ?thesis
    using assms(1) by (simp add: wikiLinkMatch_def js_def)
qed

lemma wikiLinkMatch_no_brackets:
  "\<not> prefix (js ''[['') (x # xs @ [0x5B]) \<Longrightarrow> wikiLinkMatch (x # xs @ 0x5B # rest) = None"
  by (cases xs) (auto simp: wikiLinkMatch_def js_def)

lemma wikiFragment_skip:
  "\<not> includesStr (pre @ [0x5B]) (js ''[['') \<Longrightarrow>
   wikiFragment pending (pre @ 0x5B # rest) = wikiFragment (pending @ pre) (0x5B # rest)"
proof (induction pre arbitrary: pending)
  case Nil
  show ?case by simp
next
  case (Cons x xs)
  then have np: "\<not> prefix (js ''[['') (x # xs @ [0x5B])"
    and nin: "\<not> includesStr (xs @ [0x5B]) (js ''[['')"
    by simp_all
  have "wikiFragment pending ((x # xs) @ 0x5B # rest) = wikiFragment (pending @ [x]) (xs @ 0x5B # rest)"
    using wikiLinkMatch_no_brackets [OF np, of rest] by simp
  also have "\<dots> = wikiFragment ((pending @ [x]) @ xs) (0x5B # rest)"
    by (rule Cons.IH [OF nin])
  finally show ?case by simp
qed

lemma wikiFragment_reference:
  assumes "cap \<noteq> []" and "0x5D \<notin> set cap"
  shows "wikiFragment pending (js ''[['' @ cap @ js '']]'' @ post)
       = (if pending \<noteq> [] then [TextNode pending] else []) @ LinkEl (trim cap) # wikiFragment [] post"
proof -
  obtain c cs where e: "js ''[['' @ cap @ js '']]'' @ post = c # cs"
    by (simp add: js_def)
  have d: "drop (length (js ''[['') + length cap + length (js '']]'')) (js ''[['' @ cap @ js '']]'' @ post)
      = post"
    by simp
  have "wikiFragment pending (c # cs)
      = (if pending \<noteq> [] then [TextNode pending] else [])
        @ LinkEl (trim cap)
        # wikiFragment [] (drop (length (js ''[['') + length cap + length (js '']]'')) (c # cs))"
    using wikiLinkMatch_reference [OF assms, of post] unfolding e by simp
  then show ?thesis unfolding e [symmetric] d .
qed

lemma no_link_no_href:
  "\<not> list_ex (\<lambda>n. case n of LinkEl p \<Rightarrow> True | TextNode s \<Rightarrow> False) nodes \<Longrightarrow>
   concat (map linkHref nodes) = []"
  by (induction nodes) (auto simp: linkHref_def split: node.splits)

lemma processLinks_fragment:
  "processLinks P t = map (resolveHref P) (concat (map linkHref (wikiFragment [] t)))"
  by (simp add: processLinks_def processWikiStyleLinks_def Let_def no_link_no_href)

lemma processLinks_reference:
  assumes "\<not> includesStr (pre @ [0x5B]) (js ''[['')"
    and "cap \<noteq> []" and "0x5D \<notin> set cap" and "trim cap \<noteq> []"
  shows "processLinks P (pre @ js ''[['' @ cap @ js '']]'' @ post)
       = resolveHref P (trim cap) # processLinks P post"
proof -
  have "js ''[['' @ cap @ js '']]'' @ post = 0x5B # (0x5B # cap @ js '']]'' @ post)"
    by (simp add: js_def)
  then have "wikiFragment [] (pre @ js ''[['' @ cap @ js '']]'' @ post)
      = wikiFragment ([] @ pre) (js ''[['' @ cap @ js '']]'' @ post)"
    using wikiFragment_skip [OF assms(1), of "[]" "0x5B # cap @ js '']]'' @ post"] by simp
  also have "\<dots> = (if pre \<noteq> [] then [TextNode pre] else []) @ LinkEl (trim cap) # wikiFragment [] post"
    using wikiFragment_reference [OF assms(2,3), of pre post] by simp
  finally show ?thesis
    using assms(4) by (simp add: processLinks_fragment linkHref_def)
qed

lemma resolve_examples:
  "resolveHref P (js ''a/b.md#My Section'')
     = \<lparr> filePath = js ''a/b.md'', fragment = js ''#My Section'',
         fullPath = js ''a/b.md#My Section'' \<rparr>"
  "resolveHref P (js ''a/b.md'')
     = \<lparr> filePath = js ''a/b.md'', fragment = [], fullPath = js ''a/b.md'' \<rparr>"
  "resolveHref P (js ''a/b.md > My Section'')
     = \<lparr> filePath = js ''a/b.md'', fragment = js ''#my-section'',
         fullPath = js ''a/b.md#my-section'' \<rparr>"
  by code_simp+

text \<open>
  C6 (as amended). For a paragraph text that contains the reference
  \<open>[[a/b.md#My Section]]\<close>, where the text before it has no \<open>[[\<close> and does not end with
  \<open>[\<close>, link normalisation yields the
  file path \<open>a/b.md\<close> and the fragment \<open>#My Section\<close>: the section is kept as written. For a
  plain \<open>[[a/b.md]]\<close> no fragment is produced. Only the notation \<open>a/b.md > My Section\<close> is
  lower-cased with white space runs replaced by one hyphen: its fragment is \<open>#my-section\<close>.
\<close>

theorem processLinks_section_fragment:
  "(\<not> includesStr (pre @ [0x5B]) (js ''[['') \<longrightarrow>
      processLinks P (pre @ js ''[[a/b.md#My Section]]'' @ post)
        = \<lparr> filePath = js ''a/b.md'', fragment = js ''#My Section'',
            fullPath = js ''a/b.md#My Section'' \<rparr> # processLinks P post
      \<and> processLinks P (pre @ js ''[[a/b.md]]'' @ post)
        = \<lparr> filePath = js ''a/b.md'', fragment = [], fullPath = js ''a/b.md'' \<rparr>
          # processLinks P post)
   \<and> resolveHref P (js ''a/b.md > My Section'')
        = \<lparr> filePath = js ''a/b.md'', fragment = js ''#my-section'',
            fullPath = js ''a/b.md#my-section'' \<rparr>"
proof -
  have t1: "trim (js ''a/b.md#My Section'') = js ''a/b.md#My Section''"
    and t2: "trim (js ''a/b.md'') = js ''a/b.md''"
    by code_simp+
  have r1: "js ''[[a/b.md#My Section]]'' = js ''[['' @ js ''a/b.md#My Section'' @ js '']]''"
    and r2: "js ''[[a/b.md]]'' = js ''[['' @ js ''a/b.md'' @ js '']]''"
    by (simp_all add: js_def)
  have c1: "js ''a/b.md#My Section'' \<noteq> []" "0x5D \<notin> set (js ''a/b.md#My Section'')"
    and c2: "js ''a/b.md'' \<noteq> []" "0x5D \<notin> set (js ''a/b.md'')"
    by (simp_all add: js_def)
  have "processLinks P (pre @ js ''[[a/b.md#My Section]]'' @ post)
      = resolveHref P (js ''a/b.md#My Section'') # processLinks P post"
    if "\<not> includesStr (pre @ [0x5B]) (js ''[['')"
    using processLinks_reference [OF that c1, of P post] c1 by (simp add: t1 r1)
  moreover have "processLinks P (pre @ js ''[[a/b.md]]'' @ post)
      = resolveHref P (js ''a/b.md'') # processLinks P post"
    if "\<not> includesStr (pre @ [0x5B]) (js ''[['')"
    using processLinks_reference [OF that c2, of P post] c2 by (simp add: t2 r2)
  ultimately show ?thesis
    by (simp add: resolve_examples)
qed

theorem processLinks_section_fragment_witness:
  "\<not> includesStr (js ''See [1] and '' @ [0x5B]) (js ''[['')
   \<and> processLinks (stubPlatform JNull) (js ''See [1] and '' @ js ''[[a/b.md#My Section]]'' @ js ''.'')
       = [\<lparr> filePath = js ''a/b.md'', fragment = js ''#My Section'',
            fullPath = js ''a/b.md#My Section'' \<rparr>]
   \<and> processLinks (stubPlatform JNull) (js ''See [1] and '' @ js ''[[a/b.md]]'' @ js ''.'')
       = [\<lparr> filePath = js ''a/b.md'', fragment = [], fullPath = js ''a/b.md'' \<rparr>]"
proof -
  have h: "\<not> includesStr (js ''See [1] and '' @ [0x5B]) (js ''[['')"
    by (simp add: js_def)
  have e: "processLinks (stubPlatform JNull) (js ''.'') = []"
    by code_simp
  from processLinks_section_fragment [of "js ''See [1] and ''" "stubPlatform JNull" "js ''.''"] h
  show ?thesis by (simp add: e)
qed

text \<open>
  As the specification states it, C6 expects the fragment \<open>my-section\<close> for
  \<open>[[a/b.md#My Section]]\<close>.
  The code lower-cases and hyphenates only the \<open>>\<close> notation.
\<close>

theorem processLinks_section_fragment_counterexample:
  "processLinks (stubPlatform JNull) (js ''[[a/b.md#My Section]]'')
     = [\<lparr> filePath = js ''a/b.md'', fragment = js ''#My Section'',
          fullPath = js ''a/b.md#My Section'' \<rparr>]
   \<and> js ''#My Section'' \<noteq> js ''#my-section''
   \<and> js ''#My Section'' \<noteq> js ''my-section''"
  by code_simp

section \<open>Round trip of a stored key (C9)\<close>

lemma small_char_byte:
  assumes "n \<le> 255"
  shows "(of_nat n :: jschar) \<le> 0xFF"
proof -
  have "unat (of_nat n :: jschar) = n mod 2 ^ 16"
    by (simp add: unat_of_nat)
  also have "\<dots> = n" using assms by simp
  finally show ?thesis using assms by (simp add: word_le_nat_alt)
qed

lemma hexDigit_byte:
  assumes "d < 16"
  shows "hexDigit d \<le> 0xFF"
proof (cases "d < 10")
  case True
  then have "hexDigit d = of_nat (48 + d)"
    by (simp only: hexDigit_def if_True)
  moreover have "(of_nat (48 + d) :: jschar) \<le> 0xFF"
    by (rule small_char_byte) (use assms in simp)
  ultimately show ?thesis by (simp only:)
next
  case False
  then have "hexDigit d = of_nat (87 + d)"
    by (simp only: hexDigit_def if_False)
  moreover have "(of_nat (87 + d) :: jschar) \<le> 0xFF"
    by (rule small_char_byte) (use assms in simp)
  ultimately show ?thesis by (simp only:)
qed

lemma toHex_bytes: "\<forall>c \<in> set (toHex n). c \<le> 0xFF"
proof (induction n rule: toHex.induct)
  case (1 n)
  show ?case
  proof (cases "n < 16")
    case True
    then show ?thesis by (subst toHex.simps) (simp add: hexDigit_byte)
  next
    case False
    with 1 have "\<forall>c \<in> set (toHex (n div 16)). c \<le> 0xFF" by simp
    moreover have "hexDigit (n mod 16) \<le> 0xFF" by (simp add: hexDigit_byte)
    ultimately show ?thesis using False by (subst toHex.simps) simp
  qed
qed

lemma getDeviceId_shape:
  "getDeviceId h \<noteq> []" "\<forall>c \<in> set (getDeviceId h). c \<le> 0xFF"
proof -
  have "toHex n \<noteq> []" for n
    by (subst toHex.simps) simp
  then show "getDeviceId h \<noteq> []"
    by (simp add: getDeviceId_def padStart16_def Let_def)
  show "\<forall>c \<in> set (getDeviceId h). c \<le> 0xFF"
    using toHex_bytes by (auto simp: getDeviceId_def padStart16_def Let_def)
qed

lemma xor_byte:
  fixes a b :: jschar
  assumes "a \<le> 0xFF" and "b \<le> 0xFF"
  shows "a XOR b \<le> 0xFF"
proof -
  have "uint a < 2 ^ 8" "uint b < 2 ^ 8"
    using assms by (simp_all add: word_le_def)
  then have "uint a XOR uint b < 2 ^ 8"
    by (intro XOR_upper) simp_all
  then show ?thesis
    by (simp add: word_le_def uint_xor)
qed

lemma xor_twice: "(c XOR k) XOR k = (c :: jschar)"
  by (simp add: xor.assoc)

lemma mixChars_involution:
  assumes "d \<noteq> []"
  shows "\<exists>m. mixChars d i s = Some m \<and> length m = length s \<and> mixChars d i m = Some s
           \<and> ((\<forall>c \<in> set d. c \<le> 0xFF) \<and> (\<forall>c \<in> set s. c \<le> 0xFF) \<longrightarrow> (\<forall>c \<in> set m. c \<le> 0xFF))"
proof (induction s arbitrary: i)
  case Nil
  show ?case by simp
next
  case (Cons c s)
  from Cons [of "Suc i"] obtain m where m1: "mixChars d (Suc i) s = Some m"
    and m2: "length m = length s"
    and m3: "mixChars d (Suc i) m = Some s"
    and m4: "(\<forall>c \<in> set d. c \<le> 0xFF) \<and> (\<forall>c \<in> set s. c \<le> 0xFF) \<longrightarrow> (\<forall>c \<in> set m. c \<le> 0xFF)"
    by blast
  define k where "k = d ! (i mod length d)"
  have k: "k \<in> set d" using assms by (simp add: k_def)
  have a: "mixChars d i (c # s) = Some ((c XOR k) # m)"
    using assms m1 by (simp add: k_def)
  have b: "mixChars d i ((c XOR k) # m) = Some (c # s)"
    using assms m3 by (simp add: k_def [symmetric] xor_twice)
  have e: "\<forall>x \<in> set ((c XOR k) # m). x \<le> 0xFF"
    if "\<forall>c \<in> set d. c \<le> 0xFF" and "\<forall>x \<in> set (c # s). x \<le> 0xFF"
  proof -
    from that k have "c \<le> 0xFF" "k \<le> 0xFF" by simp_all
    then have "c XOR k \<le> 0xFF" by (rule xor_byte)
    moreover from that m4 have "\<forall>c \<in> set m. c \<le> 0xFF" by simp
    ultimately show ?thesis by simp
  qed
  show ?case
  proof (intro exI conjI impI)
    show "mixChars d i (c # s) = Some ((c XOR k) # m)" by (rule a)
    show "length ((c XOR k) # m) = length (c # s)" using m2 by simp
    show "mixChars d i ((c XOR k) # m) = Some (c # s)" by (rule b)
    show "\<forall>x \<in> set ((c XOR k) # m). x \<le> 0xFF"
      if "(\<forall>c \<in> set d. c \<le> 0xFF) \<and> (\<forall>x \<in> set (c # s). x \<le> 0xFF)"
      using that e by blast
  qed
qed

lemma b64encode_sextets:
  "b64encode bs = map b64char (sextets bs) @ replicate (padCount bs) 0x3D"
  by (induction bs rule: b64encode.induct) (simp_all add: numeral_2_eq_2)

lemma sext_bounds:
  fixes a b c :: nat
  assumes "a < 256" "b < 256" "c < 256"
  shows "a div 4 < 64" "(a mod 4) * 16 + b div 16 < 64" "(b mod 16) * 4 + c div 64 < 64"
    "c mod 64 < 64" "(b mod 16) * 4 < 64" "(a mod 4) * 16 < 64"
proof -
  have 1: "a mod 4 < 4" "b mod 16 < 16" by simp_all
  have 2: "a div 4 < 64" "b div 16 < 16" "c div 64 < 4"
    using assms by (simp_all add: less_mult_imp_div_less)
  show "a div 4 < 64" by (rule 2)
  show "(a mod 4) * 16 + b div 16 < 64" using 1 2 by linarith
  show "(b mod 16) * 4 + c div 64 < 64" using 1 2 by linarith
  show "c mod 64 < 64" by simp
  show "(b mod 16) * 4 < 64" using 1 by linarith
  show "(a mod 4) * 16 < 64" using 1 by linarith
qed

lemma sext_decode:
  fixes a b c :: nat
  assumes "a < 256" "b < 256" "c < 256"
  shows "a div 4 * 4 + ((a mod 4) * 16 + b div 16) div 16 = a"
    "((a mod 4) * 16 + b div 16) mod 16 * 16 + ((b mod 16) * 4 + c div 64) div 4 = b"
    "((b mod 16) * 4 + c div 64) mod 4 * 64 + c mod 64 = c"
    "((a mod 4) * 16 + b div 16) mod 16 * 16 + ((b mod 16) * 4) div 4 = b"
    "a div 4 * 4 + ((a mod 4) * 16) div 16 = a"
proof -
  have 2: "b div 16 < 16" "c div 64 < 4"
    using assms by (simp_all add: less_mult_imp_div_less)
  have d1: "((a mod 4) * 16 + b div 16) div 16 = a mod 4"
    using 2 by simp
  have m1: "((a mod 4) * 16 + b div 16) mod 16 = b div 16"
    using 2 by simp
  have d2: "((b mod 16) * 4 + c div 64) div 4 = b mod 16"
    using 2 by simp
  have m2: "((b mod 16) * 4 + c div 64) mod 4 = c div 64"
    using 2 by simp
  show "a div 4 * 4 + ((a mod 4) * 16 + b div 16) div 16 = a"
    unfolding d1 by simp
  show "((a mod 4) * 16 + b div 16) mod 16 * 16 + ((b mod 16) * 4 + c div 64) div 4 = b"
    unfolding m1 d2 by simp
  show "((b mod 16) * 4 + c div 64) mod 4 * 64 + c mod 64 = c"
    unfolding m2 by simp
  show "((a mod 4) * 16 + b div 16) mod 16 * 16 + ((b mod 16) * 4) div 4 = b"
    unfolding m1 by simp
  show "a div 4 * 4 + ((a mod 4) * 16) div 16 = a"
    by simp
qed

lemma sextets_bound:
  "\<forall>b \<in> set bs. b < 256 \<Longrightarrow> \<forall>s \<in> set (sextets bs). s < 64"
proof (induction bs rule: sextets.induct)
  case (1 a b c rest)
  then have "a < 256" "b < 256" "c < 256" and r: "\<forall>s \<in> set (sextets rest). s < 64"
    by simp_all
  with sext_bounds [of a b c] show ?case by simp
next
  case (2 a b)
  then have "a < 256" "b < 256" by simp_all
  with sext_bounds [of a b 0] show ?case by simp
next
  case (3 a)
  then have "a < 256" by simp
  with sext_bounds [of a 0 0] show ?case by simp
next
  case 4
  show ?case by simp
qed

lemma sextets_length:
  "(length (sextets bs) + padCount bs) mod 4 = 0" "length (sextets bs) mod 4 \<noteq> 1"
  "padCount bs \<le> 2"
  by (induction bs rule: sextets.induct) simp_all

lemma b64decode_sextets:
  "\<forall>b \<in> set bs. b < 256 \<Longrightarrow> b64decode (sextets bs) = bs"
proof (induction bs rule: sextets.induct)
  case (1 a b c rest)
  then have "a < 256" "b < 256" "c < 256" and r: "b64decode (sextets rest) = rest"
    by simp_all
  with sext_decode [of a b c] show ?case by simp
next
  case (2 a b)
  then have "a < 256" "b < 256" by simp_all
  with sext_decode [of a b 0] show ?case by simp
next
  case (3 a)
  then have "a < 256" by simp
  with sext_decode [of a 0 0] show ?case by simp
next
  case 4
  show ?case by simp
qed

lemma b64char_all:
  "\<forall>i \<in> {0..<64}. b64val (b64char i) = Some i \<and> \<not> isAsciiWhitespace (b64char i)
      \<and> b64char i \<noteq> 0x3D"
  by code_simp

lemma b64char_props:
  assumes "i < 64"
  shows "b64val (b64char i) = Some i" "\<not> isAsciiWhitespace (b64char i)" "b64char i \<noteq> 0x3D"
  using b64char_all assms by simp_all

lemma stripPadding_encoded:
  assumes "p \<le> 2" and "(length xs + p) mod 4 = 0" and "0x3D \<notin> set xs"
  shows "stripPadding (xs @ replicate p 0x3D) = xs"
proof -
  have last: "\<not> suffix [0x3D] xs" "\<not> suffix [0x3D, 0x3D] xs"
    using assms(3) by (auto simp: suffix_def)
  from assms(1) consider "p = 0" | "p = 1" | "p = 2" by linarith
  then show ?thesis
  proof cases
    case 1
    with last show ?thesis by (simp add: stripPadding_def)
  next
    case 2
    have "\<not> suffix [0x3D, 0x3D] (xs @ [0x3D])"
      using assms(3) by (auto simp: suffix_def append_eq_append_conv2 Cons_eq_append_conv)
    with 2 assms(2) show ?thesis by (simp add: stripPadding_def)
  next
    case 3
    then have r: "xs @ replicate p 0x3D = xs @ [0x3D, 0x3D]"
      by (simp add: numeral_2_eq_2)
    have "suffix [0x3D, 0x3D] (xs @ [0x3D, 0x3D])"
      by (simp add: suffix_def)
    moreover have "butlast (butlast (xs @ [0x3D, 0x3D])) = xs"
      by (simp add: butlast_append)
    ultimately show ?thesis using 3 assms(2) unfolding r by (simp add: stripPadding_def)
  qed
qed

lemma those_b64val:
  "\<forall>s \<in> set ss. s < 64 \<Longrightarrow> those (map b64val (map b64char ss)) = Some ss"
  by (induction ss) (simp_all add: b64char_props)

lemma atob_b64encode:
  assumes "\<forall>b \<in> set bs. b < 256"
  shows "atob (b64encode bs) = Some (map of_nat bs)"
proof -
  let ?xs = "map b64char (sextets bs)"
  note sb = sextets_bound [OF assms]
  have "\<not> isAsciiWhitespace 0x3D"
    by (simp add: isAsciiWhitespace_def)
  then have "\<forall>c \<in> set (b64encode bs). \<not> isAsciiWhitespace c"
    unfolding b64encode_sextets using sb b64char_props(2) by auto
  then have nows: "filter (\<lambda>c. \<not> isAsciiWhitespace c) (b64encode bs) = b64encode bs"
    by (simp add: filter_id_conv)
  have noeq: "0x3D \<notin> set ?xs"
    using sb b64char_props(3) by auto
  have strip: "stripPadding (b64encode bs) = ?xs"
    unfolding b64encode_sextets
    using sextets_length [of bs] noeq by (intro stripPadding_encoded) simp_all
  have len: "length ?xs mod 4 \<noteq> 1"
    using sextets_length(2) [of bs] by simp
  have th: "those (map b64val ?xs) = Some (sextets bs)"
    by (rule those_b64val [OF sb])
  show ?thesis
    unfolding atob_def Let_def nows strip th
    using len by (simp add: b64decode_sextets [OF assms])
qed

lemma map_unat_bytes:
  fixes m :: jsstring
  shows "map of_nat (map unat m) = m"
    and "\<forall>c \<in> set m. c \<le> 0xFF \<Longrightarrow> \<forall>b \<in> set (map unat m). b < 256"
  by (auto simp: word_le_nat_alt comp_def)

lemma b64encode_nonempty: "bs \<noteq> [] \<Longrightarrow> b64encode bs \<noteq> []"
  by (induction bs rule: b64encode.induct) simp_all

text \<open>
  C9. For every API key whose characters all have code at most 255, and any fixed inputs of
  the device fingerprint, \<open>encryptApiKey\<close> returns a value that \<open>decryptApiKey\<close> maps back to
  the key; both map the empty string to the empty string.
\<close>

theorem decrypt_encrypt_roundtrip:
  assumes "list_all (\<lambda>c. c \<le> 0xFF) k"
  shows "(\<exists>e. encryptApiKey h k = Inr e \<and> decryptApiKey h e = k)
       \<and> encryptApiKey h [] = Inr [] \<and> decryptApiKey h [] = []"
proof -
  have empty: "encryptApiKey h [] = Inr []" "decryptApiKey h [] = []"
    by (simp_all add: encryptApiKey_def decryptApiKey_def)
  have "\<exists>e. encryptApiKey h k = Inr e \<and> decryptApiKey h e = k"
  proof (cases "k = []")
    case True
    with empty show ?thesis by simp
  next
    case False
    let ?d = "getDeviceId h"
    from assms have kb: "\<forall>c \<in> set k. c \<le> 0xFF"
      by (simp add: list_all_iff)
    from mixChars_involution [OF getDeviceId_shape(1), of h 0 k]
    obtain m where m1: "mixChars ?d 0 k = Some m" and m2: "length m = length k"
      and m3: "mixChars ?d 0 m = Some k"
      and m4: "(\<forall>c \<in> set ?d. c \<le> 0xFF) \<and> (\<forall>c \<in> set k. c \<le> 0xFF) \<longrightarrow> (\<forall>c \<in> set m. c \<le> 0xFF)"
      by blast
    from m4 kb getDeviceId_shape(2) have mb: "\<forall>c \<in> set m. c \<le> 0xFF"
      by blast
    then have "\<not> list_ex (\<lambda>c. c > 0xFF) m"
      by (auto simp: list_ex_iff)
    then have enc: "encryptApiKey h k = Inr (b64encode (map unat m))"
      using False m1 by (simp add: encryptApiKey_def btoa_def)
    from False m2 have "map unat m \<noteq> []" by auto
    then have ne: "b64encode (map unat m) \<noteq> []"
      by (rule b64encode_nonempty)
    have "atob (b64encode (map unat m)) = Some m"
      using atob_b64encode [OF map_unat_bytes(2) [OF mb]] by (simp only: map_unat_bytes(1))
    then have "decryptApiKey h (b64encode (map unat m)) = k"
      using ne m3 by (simp add: decryptApiKey_def)
    with enc show ?thesis by simp
  qed
  with empty show ?thesis by simp
qed

lemma exampleHost_deviceId: "getDeviceId exampleHost = js ''0000000011528884''"
proof -
  have seed: "(if userAgent exampleHost \<noteq> [] then userAgent exampleHost else js ''unknown'')
      @ js ''-'' @ (if vaultName exampleHost \<noteq> [] then vaultName exampleHost else js ''obsidian'')
      = js ''Mozilla/5.0 (X11; Linux x86_64) obsidian/1.5.3-notes''"
    by (simp add: exampleHost_def js_def)
  have hash: "foldl hashStep 0 (js ''Mozilla/5.0 (X11; Linux x86_64) obsidian/1.5.3-notes'')
      = 0x11528884"
    by (simp add: js_def hashStep_def)
  have abs: "nat \<bar>sint (0x11528884 :: 32 word)\<bar> = 0x11528884"
    by simp
  have hex: "toHex 0x11528884 = js ''11528884''"
    by (simp add: toHex.simps hexDigit_def js_def)
  show ?thesis
    unfolding getDeviceId_def Let_def seed hash abs hex
    by (simp add: padStart16_def js_def eval_nat_numeral)
qed

lemma exampleHost_encrypt: "encryptApiKey exampleHost (js ''sk-test'') = Inr (js ''Q1sdRFVDRA=='')"
  unfolding encryptApiKey_def exampleHost_deviceId Let_def
  by (simp add: js_def btoa_def b64char_def)

theorem decrypt_encrypt_roundtrip_witness:
  "list_all (\<lambda>c. c \<le> 0xFF) (js ''sk-test'')
   \<and> encryptApiKey exampleHost (js ''sk-test'') = Inr (js ''Q1sdRFVDRA=='')
   \<and> decryptApiKey exampleHost (js ''Q1sdRFVDRA=='') = js ''sk-test''"
proof -
  have h: "list_all (\<lambda>c. c \<le> 0xFF) (js ''sk-test'')"
    by (simp add: js_def)
  from decrypt_encrypt_roundtrip [OF h, of exampleHost] exampleHost_encrypt h
  show ?thesis by auto
qed

end
